theory Spec2Isabelle
  imports Complex_Main "HOL-Library.AList" "HOL-Library.Char_ord" "HOL-Library.List_Lexorder"
begin

section \<open>Strings\<close>

text \<open>
  Python \<^verbatim>\<open>str\<close> values are modelled as \<^typ>\<open>string\<close>. Identifiers, JSON keys and
  dates of the upstream API are ASCII, and the model of \<^verbatim>\<open>str.strip\<close> and
  \<^verbatim>\<open>str.upper\<close> is the ASCII one: the whitespace characters are the code points
  9 to 13 and 28 to 32, and only \<^verbatim>\<open>a\<close> to \<^verbatim>\<open>z\<close> change under \<^verbatim>\<open>upper\<close>. A slice
  \<^verbatim>\<open>s[:n]\<close> is \<^term>\<open>take n s\<close>, and strings are ordered character by character.
\<close>

definition is_space :: "char \<Rightarrow> bool" where
  "is_space c = (let n = (of_char c :: nat) in (9 \<le> n \<and> n \<le> 13) \<or> (28 \<le> n \<and> n \<le> 32))"

definition strip :: "string \<Rightarrow> string" where
  "strip s = rev (dropWhile is_space (rev (dropWhile is_space s)))"

definition upper_char :: "char \<Rightarrow> char" where
  "upper_char c =
     (let n = (of_char c :: nat) in if 97 \<le> n \<and> n \<le> 122 then char_of (n - 32) else c)"

definition upper :: "string \<Rightarrow> string" where
  "upper s = map upper_char s"

definition endswith :: "string \<Rightarrow> string \<Rightarrow> bool" where
  "endswith s suf = (length suf \<le> length s \<and> drop (length s - length suf) s = suf)"


section \<open>Identifier normalization\<close>

text \<open>
  \<^verbatim>\<open>normalize_a_share_symbol\<close> is the same function in both scripts. \<^verbatim>\<open>s[:-3]\<close> is
  \<^term>\<open>take (length s - 3) s\<close>, and \<^verbatim>\<open>s[0]\<close> is only read after the empty string has
  been returned.
\<close>

definition normalize_a_share_symbol :: "string \<Rightarrow> string" where
  "normalize_a_share_symbol symbol =
     (let s = upper (strip symbol) in
      if s = [] then s
      else if CHR ''.'' \<in> set s then
        (if endswith s ''.SH'' then take (length s - 3) s @ ''.SHH''
         else if endswith s ''.SZ'' then take (length s - 3) s @ ''.SHZ''
         else s)
      else if hd s = CHR ''6'' then s @ ''.SHH''
      else if hd s = CHR ''0'' \<or> hd s = CHR ''3'' then s @ ''.SHZ''
      else s)"


section \<open>JSON values and the world of a run\<close>

text \<open>
  Decoded JSON, as Python's \<^verbatim>\<open>json\<close> module produces it. The type \<open>'f\<close> stands for
  Python's \<^verbatim>\<open>float\<close>; its operations are parameters of the model (see the record
  \<open>pylib\<close> below). A \<^verbatim>\<open>dict\<close> is an association list read with \<^const>\<open>map_of\<close>.
\<close>

datatype 'f json =
    JNull
  | JBool bool
  | JInt int
  | JFloat 'f
  | JStr string
  | JArr "'f json list"
  | JObj "(string \<times> 'f json) list"

type_synonym 'f dict = "(string \<times> 'f json) list"

type_synonym params = "(string \<times> string) list"

text \<open>\<^verbatim>\<open>d.update(e)\<close>: the bindings of \<open>e\<close> are written into \<open>d\<close> one after the other.\<close>

definition dict_update :: "('k \<times> 'v) list \<Rightarrow> ('k \<times> 'v) list \<Rightarrow> ('k \<times> 'v) list" where
  "dict_update d e = foldl (\<lambda>acc (k, v). AList.update k v acc) d e"

text \<open>\<^verbatim>\<open>key in d\<close> for a \<^verbatim>\<open>dict\<close>.\<close>

definition has_key :: "string \<Rightarrow> (string \<times> 'v) list \<Rightarrow> bool" where
  "has_key k d = (map_of d k \<noteq> None)"

text \<open>
  The exceptions of the program. \<open>ExhaustedRetries\<close> is the \<^verbatim>\<open>RuntimeError\<close> raised
  after the retry loop, \<open>UpstreamError\<close> the \<^verbatim>\<open>ValueError\<close> raised for a body with
  an \<^verbatim>\<open>Error Message\<close> key (it carries the value of that key). \<open>ValueError\<close>,
  \<open>TypeError\<close>, \<open>AttributeError\<close>, \<open>KeyError\<close> and \<open>OverflowError\<close> are raised by
  built-in conversions and by operations on JSON values of the wrong type or size. \<open>SystemExit\<close> is \<^verbatim>\<open>sys.exit\<close>.
\<close>

datatype exit_reason = MissingApiKey | StartAfterEnd | NoData

fun exit_code :: "exit_reason \<Rightarrow> int" where
  "exit_code MissingApiKey = 2"
| "exit_code StartAfterEnd = 2"
| "exit_code NoData = 1"

datatype 'f error =
    ExhaustedRetries
  | UpstreamError "'f json"
  | ValueError
  | TypeError
  | AttributeError
  | KeyError
  | OverflowError
  | SystemExit exit_reason

text \<open>
  What one \<^verbatim>\<open>session.get\<close> does: it raises a \<^verbatim>\<open>requests.RequestException\<close>
  (connection failure, timeout), or it returns a response with a status code and a body.
  The body is a JSON object or \<open>Invalid\<close>; for an invalid body \<^verbatim>\<open>resp.json()\<close> raises
  \<^verbatim>\<open>requests.JSONDecodeError\<close>, which is a \<^verbatim>\<open>RequestException\<close> (from version 2.27
  of \<^verbatim>\<open>requests\<close> on). The upstream API answers with JSON objects; a body that is valid
  JSON of another kind is outside the model.

  The transport is an oracle: the reply to the \<open>n\<close>-th request of the run (counted from
  0) with the given query parameters. The time-out and the headers of the session only
  influence the oracle and are not modelled.
\<close>

datatype 'f body = Invalid | Json "'f dict"

datatype 'f reply = RequestException | Response int "'f body"

type_synonym 'f transport = "nat \<Rightarrow> params \<Rightarrow> 'f reply"

text \<open>
  The effects of a run: the requests sent, the durations passed to \<^verbatim>\<open>time.sleep\<close> by
  the retry loops (in seconds), both oldest first, and the number of calls of
  \<^verbatim>\<open>rate_limiter.wait()\<close>. How long a call of \<^verbatim>\<open>wait\<close> blocks depends on the
  monotonic clock and on binary floating-point arithmetic and is not modelled; messages
  printed to standard error are not modelled either.
\<close>

record world =
  sent :: "params list"
  slept :: "int list"
  acquired :: nat

definition rate_limiter_wait :: "world \<Rightarrow> world" where
  "rate_limiter_wait w = w\<lparr>acquired := Suc (acquired w)\<rparr>"

definition session_get :: "'f transport \<Rightarrow> params \<Rightarrow> world \<Rightarrow> 'f reply \<times> world" where
  "session_get T ps w = (T (length (sent w)) ps, w\<lparr>sent := sent w @ [ps]\<rparr>)"

definition time_sleep :: "int \<Rightarrow> world \<Rightarrow> world" where
  "time_sleep seconds w = w\<lparr>slept := slept w @ [seconds]\<rparr>"


section \<open>Retrying fetchers\<close>

text \<open>
  One pass through the body of \<^verbatim>\<open>for attempt in range(1, max_retries + 1)\<close> ends in
  \<^verbatim>\<open>return\<close>, in \<^verbatim>\<open>raise\<close>, or goes on to the next attempt. The loop runs over the
  list \<^term>\<open>[1..max_retries]\<close>; when the list is used up, the \<^verbatim>\<open>RuntimeError\<close> after
  the loop is raised.
\<close>

datatype 'f outcome = Return "'f dict" | Raise "'f error" | Continue

fun retry_loop ::
  "(int \<Rightarrow> world \<Rightarrow> 'f outcome \<times> world) \<Rightarrow> int list \<Rightarrow> world \<Rightarrow> ('f error + 'f dict) \<times> world" where
  "retry_loop body [] w = (Inl ExhaustedRetries, w)"
| "retry_loop body (attempt # rest) w =
     (case body attempt w of
        (Return data, w') \<Rightarrow> (Inr data, w')
      | (Raise e, w') \<Rightarrow> (Inl e, w')
      | (Continue, w') \<Rightarrow> retry_loop body rest w')"

subsection \<open>\<^verbatim>\<open>fetch_alpha_vantage_data\<close> (script \<^verbatim>\<open>fetch_a_share_info.py\<close>)\<close>

definition fetch_alpha_vantage_data_attempt ::
  "'f transport \<Rightarrow> params \<Rightarrow> int \<Rightarrow> world \<Rightarrow> 'f outcome \<times> world" where
  "fetch_alpha_vantage_data_attempt T params attempt w =
     (case session_get T params (rate_limiter_wait w) of
        (RequestException, w') \<Rightarrow> (Continue, time_sleep (min 30 (attempt * 2)) w')
      | (Response status_code body, w') \<Rightarrow>
          if status_code \<noteq> 200 then (Continue, time_sleep (min 30 (attempt * 2)) w')
          else
            (case body of
               Invalid \<Rightarrow> (Continue, time_sleep (min 30 (attempt * 2)) w')
             | Json data \<Rightarrow>
                 if has_key ''Note'' data \<or> has_key ''Information'' data then
                   (Continue, time_sleep (min 60 (15 * attempt)) w')
                 else
                   (case map_of data ''Error Message'' of
                      Some msg \<Rightarrow> (Raise (UpstreamError msg), w')
                    | None \<Rightarrow> (Return data, w'))))"

definition fetch_alpha_vantage_data ::
  "'f transport \<Rightarrow> string \<Rightarrow> string \<Rightarrow> string \<Rightarrow> params \<Rightarrow> int \<Rightarrow> world
     \<Rightarrow> ('f error + 'f dict) \<times> world" where
  "fetch_alpha_vantage_data T function symbol api_key extra_params max_retries w =
     (let params = dict_update
            [(''function'', function), (''symbol'', symbol), (''apikey'', api_key),
             (''datatype'', ''json'')]
            extra_params
      in retry_loop (fetch_alpha_vantage_data_attempt T params) [1..max_retries] w)"

subsection \<open>\<^verbatim>\<open>fetch_alpha_vantage_daily\<close> (script \<^verbatim>\<open>fetch_a_shares.py\<close>)\<close>

definition fetch_alpha_vantage_daily_attempt ::
  "'f transport \<Rightarrow> params \<Rightarrow> int \<Rightarrow> world \<Rightarrow> 'f outcome \<times> world" where
  "fetch_alpha_vantage_daily_attempt T params attempt w =
     (case session_get T params (rate_limiter_wait w) of
        (RequestException, w') \<Rightarrow> (Continue, time_sleep (min 60 (attempt * 2)) w')
      | (Response status_code body, w') \<Rightarrow>
          if status_code \<noteq> 200 then (Continue, time_sleep (min 60 (attempt * 2)) w')
          else
            (case body of
               Invalid \<Rightarrow> (Continue, time_sleep (min 60 (attempt * 2)) w')
             | Json data \<Rightarrow>
                 if has_key ''Note'' data \<or> has_key ''Information'' data then
                   (Continue, time_sleep (min 75 (10 * attempt)) w')
                 else
                   (case map_of data ''Error Message'' of
                      Some msg \<Rightarrow> (Raise (UpstreamError msg), w')
                    | None \<Rightarrow>
                        if has_key ''Time Series (Daily)'' data then (Return data, w')
                        else (Continue, time_sleep (min 60 (attempt * 2)) w'))))"

definition fetch_alpha_vantage_daily ::
  "'f transport \<Rightarrow> string \<Rightarrow> string \<Rightarrow> string \<Rightarrow> string \<Rightarrow> int \<Rightarrow> world
     \<Rightarrow> ('f error + 'f dict) \<times> world" where
  "fetch_alpha_vantage_daily T symbol api_key outputsize function_name max_retries w =
     (let params =
            [(''function'', function_name), (''symbol'', symbol), (''outputsize'', outputsize),
             (''datatype'', ''json''), (''apikey'', api_key)]
      in retry_loop (fetch_alpha_vantage_daily_attempt T params) [1..max_retries] w)"

text \<open>The transports and bodies that the properties of the fetchers speak about.\<close>

definition non_200 :: "'f reply \<Rightarrow> bool" where
  "non_200 r = (case r of Response status_code body \<Rightarrow> status_code \<noteq> 200 | RequestException \<Rightarrow> False)"

definition throttled :: "'f dict \<Rightarrow> bool" where
  "throttled data = (has_key ''Note'' data \<or> has_key ''Information'' data)"

definition world0 :: world where
  "world0 = \<lparr>sent = [], slept = [], acquired = 0\<rparr>"


section \<open>Python built-ins and library functions\<close>

text \<open>
  A calendar date (\<^verbatim>\<open>datetime.date\<close>; of a \<^verbatim>\<open>datetime\<close> only the date part is ever
  used). \<open>toordinal\<close> is the day number of the proleptic Gregorian calendar, as in
  Python's \<^verbatim>\<open>date.toordinal\<close>; dates are compared by it, and subtracting
  \<^verbatim>\<open>timedelta(days=7)\<close> subtracts 7 from it. The month of a date is between 1 and 12.
\<close>

record date =
  year :: int
  month :: int
  day :: int

definition is_leap :: "int \<Rightarrow> bool" where
  "is_leap y = (y mod 4 = 0 \<and> (y mod 100 \<noteq> 0 \<or> y mod 400 = 0))"

definition days_before_year :: "int \<Rightarrow> int" where
  "days_before_year y = (y - 1) * 365 + (y - 1) div 4 - (y - 1) div 100 + (y - 1) div 400"

definition days_before_month :: "int \<Rightarrow> int \<Rightarrow> int" where
  "days_before_month y m =
     [0, 0, 31, 59, 90, 120, 151, 181, 212, 243, 273, 304, 334] ! nat m
       + (if m > 2 \<and> is_leap y then 1 else 0)"

definition toordinal :: "date \<Rightarrow> int" where
  "toordinal d = days_before_year (year d) + days_before_month (year d) (month d) + day d"

text \<open>
  The functions of Python and its libraries that the program calls and that are not
  defined here are parameters of the model, collected in one record. \<open>'f\<close> is the type
  of Python's \<^verbatim>\<open>float\<close>. A conversion that raises is \<open>None\<close>.
  \<^item> \<open>float_of_str\<close>: \<^verbatim>\<open>float(s)\<close> for a string;
  \<^item> \<open>int_too_large\<close>: whether an integer is too large for a float, so that converting
    it raises \<^verbatim>\<open>OverflowError\<close>; \<open>float_of_int\<close>: the float of an integer that is not
    too large (the constants 0, 1 and 100, the value of a \<^verbatim>\<open>bool\<close> and the length of
    a list of at most ten items never are);
  \<^item> \<open>int_of_str\<close>, \<open>int_of_float\<close>: \<^verbatim>\<open>int(x)\<close> for a string and for a float (for a
    float it raises \<^verbatim>\<open>ValueError\<close> or \<^verbatim>\<open>OverflowError\<close>; the model does not tell
    the two apart);
  \<^item> \<open>quotient_too_large\<close>: whether \<^verbatim>\<open>a / b\<close> for two integers, with \<open>b\<close> not 0, is
    too large for a float and raises \<^verbatim>\<open>OverflowError\<close>; \<open>truediv_int\<close>: its value when
    it is not;
  \<^item> \<open>fadd\<close>, \<open>fsub\<close>, \<open>fmul\<close>, \<open>fdiv\<close>: float arithmetic (\<open>fdiv\<close> is only called
    with a divisor that is greater than 0);
  \<^item> \<open>fpos\<close>: \<^verbatim>\<open>x > 0\<close>; \<open>fnonzero\<close>: the truth value of a float;
  \<^item> \<open>fround\<close>: \<^verbatim>\<open>round(x, n)\<close> for a float;
  \<^item> \<open>strptime\<close>: the date of \<^verbatim>\<open>datetime.strptime(s, fmt)\<close>;
    \<open>strftime\<close>: \<^verbatim>\<open>d.strftime(fmt)\<close>;
  \<^item> \<open>today\<close>: the date of \<^verbatim>\<open>datetime.now()\<close>;
  \<^item> \<open>dateutil_parse\<close>: the date of \<^verbatim>\<open>dateutil.parser.parse(s)\<close>.
\<close>

record 'f pylib =
  float_of_str :: "string \<Rightarrow> 'f option"
  int_too_large :: "int \<Rightarrow> bool"
  float_of_int :: "int \<Rightarrow> 'f"
  int_of_str :: "string \<Rightarrow> int option"
  int_of_float :: "'f \<Rightarrow> int option"
  quotient_too_large :: "int \<Rightarrow> int \<Rightarrow> bool"
  truediv_int :: "int \<Rightarrow> int \<Rightarrow> 'f"
  fadd :: "'f \<Rightarrow> 'f \<Rightarrow> 'f"
  fsub :: "'f \<Rightarrow> 'f \<Rightarrow> 'f"
  fmul :: "'f \<Rightarrow> 'f \<Rightarrow> 'f"
  fdiv :: "'f \<Rightarrow> 'f \<Rightarrow> 'f"
  fpos :: "'f \<Rightarrow> bool"
  fnonzero :: "'f \<Rightarrow> bool"
  fround :: "nat \<Rightarrow> 'f \<Rightarrow> 'f"
  strptime :: "string \<Rightarrow> string \<Rightarrow> date option"
  strftime :: "date \<Rightarrow> string \<Rightarrow> string"
  today :: date
  dateutil_parse :: "string \<Rightarrow> date option"

text \<open>Sequencing of computations that may raise.\<close>

definition ebind :: "'e + 'a \<Rightarrow> ('a \<Rightarrow> 'e + 'b) \<Rightarrow> 'e + 'b" where
  "ebind m f = (case m of Inl e \<Rightarrow> Inl e | Inr x \<Rightarrow> f x)"

text \<open>\<^verbatim>\<open>bool(v)\<close>, as in \<^verbatim>\<open>if v\<close> and \<^verbatim>\<open>if not v\<close>.\<close>

definition truthy :: "'f pylib \<Rightarrow> 'f json \<Rightarrow> bool" where
  "truthy L v =
     (case v of
        JNull \<Rightarrow> False
      | JBool b \<Rightarrow> b
      | JInt i \<Rightarrow> i \<noteq> 0
      | JFloat x \<Rightarrow> fnonzero L x
      | JStr s \<Rightarrow> s \<noteq> []
      | JArr xs \<Rightarrow> xs \<noteq> []
      | JObj d \<Rightarrow> d \<noteq> [])"

text \<open>\<^verbatim>\<open>d.get(k, default)\<close> for a \<^verbatim>\<open>dict\<close>, and for a value that may not be one.\<close>

definition dict_get :: "'f dict \<Rightarrow> string \<Rightarrow> 'f json \<Rightarrow> 'f json" where
  "dict_get d k dflt = (case map_of d k of Some v \<Rightarrow> v | None \<Rightarrow> dflt)"

definition py_get :: "'f json \<Rightarrow> string \<Rightarrow> 'f json \<Rightarrow> 'f error + 'f json" where
  "py_get x k dflt = (case x of JObj d \<Rightarrow> Inr (dict_get d k dflt) | _ \<Rightarrow> Inl AttributeError)"

text \<open>\<^verbatim>\<open>float(v)\<close> and \<^verbatim>\<open>int(v)\<close>.\<close>

definition py_float :: "'f pylib \<Rightarrow> 'f json \<Rightarrow> 'f error + 'f" where
  "py_float L v =
     (case v of
        JStr s \<Rightarrow> (case float_of_str L s of Some x \<Rightarrow> Inr x | None \<Rightarrow> Inl ValueError)
      | JInt i \<Rightarrow> if int_too_large L i then Inl OverflowError else Inr (float_of_int L i)
      | JFloat x \<Rightarrow> Inr x
      | JBool b \<Rightarrow> Inr (float_of_int L (if b then 1 else 0))
      | _ \<Rightarrow> Inl TypeError)"

definition py_int :: "'f pylib \<Rightarrow> 'f json \<Rightarrow> 'f error + int" where
  "py_int L v =
     (case v of
        JStr s \<Rightarrow> (case int_of_str L s of Some i \<Rightarrow> Inr i | None \<Rightarrow> Inl ValueError)
      | JInt i \<Rightarrow> Inr i
      | JFloat x \<Rightarrow> (case int_of_float L x of Some i \<Rightarrow> Inr i | None \<Rightarrow> Inl ValueError)
      | JBool b \<Rightarrow> Inr (if b then 1 else 0)
      | _ \<Rightarrow> Inl TypeError)"

text \<open>
  The value of a numeric variable of the program is an \<^verbatim>\<open>int\<close> or a \<^verbatim>\<open>float\<close>.
  \<open>py_add\<close> is \<^verbatim>\<open>a + b\<close> for a number \<open>a\<close> and any value \<open>b\<close> (a \<^verbatim>\<open>bool\<close> counts
  as the integer 0 or 1; anything but a number raises, and so does an integer that is
  too large to be added to a float), \<open>py_truediv\<close> is \<^verbatim>\<open>a / n\<close> for the length \<open>n\<close> of
  a non-empty list of at most ten items (it raises when the quotient of two integers is
  too large), and \<open>py_round\<close> is \<^verbatim>\<open>round(a, n)\<close>, which leaves an \<^verbatim>\<open>int\<close> as it is.
\<close>

datatype 'f number = IntNum int | FloatNum 'f

definition number_json :: "'f number \<Rightarrow> 'f json" where
  "number_json a = (case a of IntNum i \<Rightarrow> JInt i | FloatNum x \<Rightarrow> JFloat x)"

definition py_add :: "'f pylib \<Rightarrow> 'f number \<Rightarrow> 'f json \<Rightarrow> 'f error + 'f number" where
  "py_add L a b =
     (case (a, b) of
        (IntNum i, JInt j) \<Rightarrow> Inr (IntNum (i + j))
      | (IntNum i, JBool c) \<Rightarrow> Inr (IntNum (i + (if c then 1 else 0)))
      | (IntNum i, JFloat y) \<Rightarrow>
          if int_too_large L i then Inl OverflowError
          else Inr (FloatNum (fadd L (float_of_int L i) y))
      | (FloatNum x, JInt j) \<Rightarrow>
          if int_too_large L j then Inl OverflowError
          else Inr (FloatNum (fadd L x (float_of_int L j)))
      | (FloatNum x, JBool c) \<Rightarrow> Inr (FloatNum (fadd L x (float_of_int L (if c then 1 else 0))))
      | (FloatNum x, JFloat y) \<Rightarrow> Inr (FloatNum (fadd L x y))
      | _ \<Rightarrow> Inl TypeError)"

definition py_truediv :: "'f pylib \<Rightarrow> 'f number \<Rightarrow> int \<Rightarrow> 'f error + 'f" where
  "py_truediv L a n =
     (case a of
        IntNum i \<Rightarrow>
          if quotient_too_large L i n then Inl OverflowError else Inr (truediv_int L i n)
      | FloatNum x \<Rightarrow> Inr (fdiv L x (float_of_int L n)))"

definition py_round :: "'f pylib \<Rightarrow> 'f number \<Rightarrow> nat \<Rightarrow> 'f number" where
  "py_round L a n = (case a of IntNum i \<Rightarrow> IntNum i | FloatNum x \<Rightarrow> FloatNum (fround L n x))"

text \<open>
  \<^verbatim>\<open>v[:n] + "..." if v else ""\<close>: only a string can be sliced and joined with a
  string; any other value that counts as true raises.
\<close>

definition truncated :: "'f pylib \<Rightarrow> nat \<Rightarrow> 'f json \<Rightarrow> 'f error + 'f json" where
  "truncated L n v =
     (if truthy L v then (case v of JStr s \<Rightarrow> Inr (JStr (take n s @ ''...'')) | _ \<Rightarrow> Inl TypeError)
      else Inr (JStr ''''))"

text \<open>\<^verbatim>\<open>v.replace("%", "")\<close>: only a string has the method.\<close>

definition replace_percent :: "'f json \<Rightarrow> 'f error + 'f json" where
  "replace_percent v =
     (case v of JStr s \<Rightarrow> Inr (JStr (filter (\<lambda>c. c \<noteq> CHR ''%'') s)) | _ \<Rightarrow> Inl AttributeError)"


section \<open>Endpoint adapters: fetching\<close>

text \<open>
  The four endpoint fetchers of \<^verbatim>\<open>fetch_a_share_info.py\<close> call
  \<^verbatim>\<open>fetch_alpha_vantage_data\<close> with its default budget of 3 attempts.
\<close>

definition fetch_quote_endpoint ::
  "'f transport \<Rightarrow> string \<Rightarrow> string \<Rightarrow> world \<Rightarrow> ('f error + 'f dict) \<times> world" where
  "fetch_quote_endpoint T symbol api_key w =
     fetch_alpha_vantage_data T ''GLOBAL_QUOTE'' symbol api_key [] 3 w"

definition fetch_company_overview ::
  "'f transport \<Rightarrow> string \<Rightarrow> string \<Rightarrow> world \<Rightarrow> ('f error + 'f dict) \<times> world" where
  "fetch_company_overview T symbol api_key w =
     fetch_alpha_vantage_data T ''OVERVIEW'' symbol api_key [] 3 w"

definition fetch_news_sentiment ::
  "'f transport \<Rightarrow> string \<Rightarrow> string \<Rightarrow> world \<Rightarrow> ('f error + 'f dict) \<times> world" where
  "fetch_news_sentiment T symbol api_key w =
     fetch_alpha_vantage_data T ''NEWS_SENTIMENT'' symbol api_key
       [(''time_from'', ''20240801T0000''), (''limit'', ''50'')] 3 w"

definition fetch_daily_data ::
  "'f transport \<Rightarrow> string \<Rightarrow> string \<Rightarrow> world \<Rightarrow> ('f error + 'f dict) \<times> world" where
  "fetch_daily_data T symbol api_key w =
     fetch_alpha_vantage_data T ''TIME_SERIES_DAILY'' symbol api_key
       [(''outputsize'', ''compact'')] 3 w"


section \<open>Endpoint adapters: parsing\<close>

definition get_float :: "'f pylib \<Rightarrow> 'f json \<Rightarrow> string \<Rightarrow> 'f error + 'f" where
  "get_float L x k = ebind (py_get x k (JInt 0)) (py_float L)"

definition parse_quote_data :: "'f pylib \<Rightarrow> 'f dict \<Rightarrow> string \<Rightarrow> 'f error + 'f dict" where
  "parse_quote_data L quote_data symbol =
     (let global_quote = dict_get quote_data ''Global Quote'' (JObj []) in
      if \<not> truthy L global_quote then Inr []
      else
        ebind (get_float L global_quote ''05. price'') (\<lambda>current_price.
        ebind (get_float L global_quote ''09. change'') (\<lambda>change.
        ebind (ebind (py_get global_quote ''10. change percent'' (JStr ''0%'')) replace_percent)
          (\<lambda>change_percent.
        ebind (py_get global_quote ''06. volume'' (JStr ''0'')) (\<lambda>volume.
        ebind (get_float L global_quote ''08. previous close'') (\<lambda>previous_close.
        ebind (get_float L global_quote ''02. open'') (\<lambda>open.
        ebind (get_float L global_quote ''03. high'') (\<lambda>high.
        ebind (get_float L global_quote ''04. low'') (\<lambda>low.
        ebind (py_get global_quote ''07. latest trading day'' (JStr '''')) (\<lambda>latest_trading_day.
        Inr [(''symbol'', JStr symbol),
             (''current_price'', JFloat current_price),
             (''change'', JFloat change),
             (''change_percent'', change_percent),
             (''volume'', volume),
             (''previous_close'', JFloat previous_close),
             (''open'', JFloat open),
             (''high'', JFloat high),
             (''low'', JFloat low),
             (''latest_trading_day'', latest_trading_day)]))))))))))"

definition parse_company_overview :: "'f pylib \<Rightarrow> 'f dict \<Rightarrow> string \<Rightarrow> 'f error + 'f dict" where
  "parse_company_overview L overview_data symbol =
     (if overview_data = [] \<or> \<not> has_key ''Symbol'' overview_data then Inr []
      else
        ebind (truncated L 200 (dict_get overview_data ''Description'' (JStr ''''))) (\<lambda>description.
        Inr [(''symbol'', JStr symbol),
             (''company_name'', dict_get overview_data ''Name'' (JStr '''')),
             (''sector'', dict_get overview_data ''Sector'' (JStr '''')),
             (''industry'', dict_get overview_data ''Industry'' (JStr '''')),
             (''description'', description),
             (''market_cap'', dict_get overview_data ''MarketCapitalization'' (JStr '''')),
             (''pe_ratio'', dict_get overview_data ''PERatio'' (JStr '''')),
             (''dividend_yield'', dict_get overview_data ''DividendYield'' (JStr '''')),
             (''eps'', dict_get overview_data ''EPS'' (JStr '''')),
             (''beta'', dict_get overview_data ''Beta'' (JStr ''''))]))"


text \<open>
  \<^verbatim>\<open>parse_news_sentiment\<close>. The loop over \<^verbatim>\<open>feed[:10]\<close> carries four variables.
  \<open>news_try\<close> is the body of the \<^verbatim>\<open>try\<close>; its bare \<^verbatim>\<open>except\<close> goes on with the
  next item, keeping what the body had assigned before it raised. The division in the
  \<^verbatim>\<open>return\<close> statement is outside the \<^verbatim>\<open>try\<close>: when it raises, the parser raises.
\<close>

record 'f news_acc =
  recent_news :: "'f json list"
  total_sentiment :: "'f number"
  positive_count :: int
  negative_count :: int

definition news_try :: "'f pylib \<Rightarrow> 'f dict \<Rightarrow> 'f json \<Rightarrow> 'f news_acc \<Rightarrow> 'f news_acc" where
  "news_try L item news_date acc =
     (case news_date of
        JStr s \<Rightarrow>
          (case strptime L s ''%Y%m%dT%H%M%S'' of
             None \<Rightarrow> acc
           | Some news_datetime \<Rightarrow>
               if toordinal (today L) - 7 \<le> toordinal news_datetime then
                 (case truncated L 100 (dict_get item ''summary'' (JStr '''')) of
                    Inl e \<Rightarrow> acc
                  | Inr summary \<Rightarrow>
                      let acc1 = acc\<lparr>recent_news := recent_news acc @
                            [JObj [(''title'', dict_get item ''title'' (JStr '''')),
                                   (''summary'', summary),
                                   (''sentiment'', dict_get item ''overall_sentiment_label'' (JStr '''')),
                                   (''date'', JStr (strftime L news_datetime ''%Y-%m-%d''))]]\<rparr>;
                          sentiment_score = dict_get item ''overall_sentiment_score'' (JInt 0)
                      in (case py_add L (total_sentiment acc1) sentiment_score of
                            Inl e \<Rightarrow> acc1
                          | Inr new_total \<Rightarrow>
                              let acc2 = acc1\<lparr>total_sentiment := new_total\<rparr>;
                                  label = dict_get item ''overall_sentiment_label'' (JStr '''')
                              in if label = JStr ''positive'' then
                                   acc2\<lparr>positive_count := positive_count acc2 + 1\<rparr>
                                 else if label = JStr ''negative'' then
                                   acc2\<lparr>negative_count := negative_count acc2 + 1\<rparr>
                                 else acc2))
               else acc)
      | _ \<Rightarrow> acc)"

definition news_item :: "'f pylib \<Rightarrow> 'f json \<Rightarrow> 'f news_acc \<Rightarrow> 'f error + 'f news_acc" where
  "news_item L item acc =
     (case item of
        JObj it \<Rightarrow>
          (let news_date = dict_get it ''time_published'' (JStr '''')
           in Inr (if truthy L news_date then news_try L it news_date acc else acc))
      | _ \<Rightarrow> Inl AttributeError)"

fun news_loop :: "'f pylib \<Rightarrow> 'f json list \<Rightarrow> 'f news_acc \<Rightarrow> 'f error + 'f news_acc" where
  "news_loop L [] acc = Inr acc"
| "news_loop L (item # rest) acc = ebind (news_item L item acc) (news_loop L rest)"

text \<open>
  \<^verbatim>\<open>feed[:10]\<close>, as the list of the items the loop visits: the slice of a list, or the
  characters of the slice of a string; other values cannot be sliced.
\<close>

definition feed_slice :: "'f json \<Rightarrow> 'f error + 'f json list" where
  "feed_slice feed =
     (case feed of
        JArr xs \<Rightarrow> Inr (take 10 xs)
      | JStr s \<Rightarrow> Inr (map (\<lambda>c. JStr [c]) (take 10 s))
      | _ \<Rightarrow> Inl TypeError)"

definition parse_news_sentiment :: "'f pylib \<Rightarrow> 'f dict \<Rightarrow> string \<Rightarrow> 'f error + 'f dict" where
  "parse_news_sentiment L news_data symbol =
     (if news_data = [] \<or> \<not> has_key ''feed'' news_data then Inr []
      else
        let feed = dict_get news_data ''feed'' (JArr []) in
        if \<not> truthy L feed then Inr []
        else
          ebind (feed_slice feed) (\<lambda>items.
          ebind (news_loop L items
                   \<lparr>recent_news = [], total_sentiment = IntNum 0, positive_count = 0,
                    negative_count = 0\<rparr>) (\<lambda>acc.
          ebind (if recent_news acc \<noteq> [] then
                   ebind (py_truediv L (total_sentiment acc) (int (length (recent_news acc))))
                     (\<lambda>mean. Inr (JFloat (fround L 3 mean)))
                 else Inr (JInt 0)) (\<lambda>avg_sentiment_score.
          Inr [(''symbol'', JStr symbol),
               (''recent_news_count'', JInt (int (length (recent_news acc)))),
               (''avg_sentiment_score'', avg_sentiment_score),
               (''positive_news_count'', JInt (positive_count acc)),
               (''negative_news_count'', JInt (negative_count acc)),
               (''recent_news'', JArr (recent_news acc))]))))"

text \<open>
  \<^verbatim>\<open>parse_daily_data_for_week\<close>. The keys of a \<^verbatim>\<open>dict\<close> are the first components of
  the association list without its shadowed entries; the keys of a JSON object are
  strings, ordered as Python orders strings.
\<close>

definition keys :: "('k \<times> 'v) list \<Rightarrow> 'k list" where
  "keys d = map fst (AList.clearjunk d)"

record 'f week_row =
  date_str :: string
  close :: 'f
  volume :: int
  change :: 'f

definition week_row_json :: "'f week_row \<Rightarrow> 'f json" where
  "week_row_json r =
     JObj [(''date'', JStr (date_str r)), (''close'', JFloat (close r)),
           (''volume'', JInt (volume r)), (''change'', JFloat (change r))]"

definition week_day :: "'f pylib \<Rightarrow> 'f dict \<Rightarrow> string \<Rightarrow> 'f error + 'f week_row" where
  "week_day L time_series d =
     (case map_of time_series d of
        None \<Rightarrow> Inl KeyError
      | Some day_data \<Rightarrow>
          ebind (get_float L day_data ''4. close'') (\<lambda>c.
          ebind (ebind (py_get day_data ''5. volume'' (JInt 0)) (py_int L)) (\<lambda>v.
          ebind (get_float L day_data ''4. close'') (\<lambda>c2.
          ebind (get_float L day_data ''1. open'') (\<lambda>opn.
          Inr \<lparr>date_str = d, close = c, volume = v, change = fsub L c2 opn\<rparr>)))))"

fun week_loop :: "'f pylib \<Rightarrow> 'f dict \<Rightarrow> string list \<Rightarrow> 'f error + 'f week_row list" where
  "week_loop L time_series [] = Inr []"
| "week_loop L time_series (d # dates) =
     ebind (week_day L time_series d) (\<lambda>r.
     ebind (week_loop L time_series dates) (\<lambda>rs. Inr (r # rs)))"

definition week_changes :: "'f pylib \<Rightarrow> 'f week_row list \<Rightarrow> 'f number \<times> 'f number" where
  "week_changes L week_data =
     (if 2 \<le> length week_data then
        let first_close = close (last week_data);
            last_close = close (hd week_data);
            week_change = fsub L last_close first_close;
            week_change_percent =
              (if fpos L first_close
               then FloatNum (fmul L (fdiv L week_change first_close) (float_of_int L 100))
               else IntNum 0)
        in (FloatNum week_change, week_change_percent)
      else (IntNum 0, IntNum 0))"

definition parse_daily_data_for_week :: "'f pylib \<Rightarrow> 'f dict \<Rightarrow> string \<Rightarrow> 'f error + 'f dict" where
  "parse_daily_data_for_week L daily_data symbol =
     (let time_series = dict_get daily_data ''Time Series (Daily)'' (JObj []) in
      if \<not> truthy L time_series then Inr []
      else
        (case time_series of
           JObj ts \<Rightarrow>
             let dates = take 7 (rev (sort (keys ts))) in
             if dates = [] then Inr []
             else
               ebind (week_loop L ts dates) (\<lambda>week_data.
               case week_changes L week_data of
                 (week_change, week_change_percent) \<Rightarrow>
                   Inr [(''symbol'', JStr symbol),
                        (''week_change'', number_json (py_round L week_change 2)),
                        (''week_change_percent'', number_json (py_round L week_change_percent 2)),
                        (''week_data'', JArr (map week_row_json week_data))])
         | _ \<Rightarrow> Inl AttributeError))"


section \<open>Aggregator\<close>

text \<open>
  Each of the four \<^verbatim>\<open>try\<close> blocks of \<^verbatim>\<open>fetch_stock_comprehensive_info\<close> fetches,
  parses and updates \<^verbatim>\<open>result\<close>; its \<^verbatim>\<open>except Exception\<close> leaves \<^verbatim>\<open>result\<close> as it
  was. The effects of the fetch on the world stay.
\<close>

definition try_update :: "'f dict \<Rightarrow> 'f error + 'f dict \<Rightarrow> 'f dict" where
  "try_update result r = (case r of Inl e \<Rightarrow> result | Inr partial \<Rightarrow> dict_update result partial)"

definition fetch_stock_comprehensive_info ::
  "'f pylib \<Rightarrow> 'f transport \<Rightarrow> string \<Rightarrow> string \<Rightarrow> world \<Rightarrow> 'f dict \<times> world" where
  "fetch_stock_comprehensive_info L T symbol api_key w0 =
     (let result0 = [(''symbol'', JStr symbol)] in
      case fetch_quote_endpoint T symbol api_key w0 of (quote_data, w1) \<Rightarrow>
      let result1 = try_update result0
            (ebind quote_data (\<lambda>d. parse_quote_data L d symbol)) in
      case fetch_company_overview T symbol api_key w1 of (overview_data, w2) \<Rightarrow>
      let result2 = try_update result1
            (ebind overview_data (\<lambda>d. parse_company_overview L d symbol)) in
      case fetch_news_sentiment T symbol api_key w2 of (news_data, w3) \<Rightarrow>
      let result3 = try_update result2
            (ebind news_data (\<lambda>d. parse_news_sentiment L d symbol)) in
      case fetch_daily_data T symbol api_key w3 of (daily_data, w4) \<Rightarrow>
      let result4 = try_update result3
            (ebind daily_data (\<lambda>d. parse_daily_data_for_week L d symbol)) in
      (result4, w4))"

section \<open>Batch drivers\<close>

text \<open>
  The parsed command line of a script (\<^verbatim>\<open>args\<close>) and the value of the environment
  variable \<^verbatim>\<open>ALPHAVANTAGE_API_KEY\<close> are inputs of its \<^verbatim>\<open>main\<close>. One record holds
  the options of both scripts; \<open>start_arg\<close>, \<open>end_arg\<close>, \<open>outputsize\<close> and \<open>adjusted\<close>
  are options of \<^verbatim>\<open>fetch_a_shares.py\<close> only. A \<^verbatim>\<open>main\<close> builds one rate limiter
  from \<open>calls_per_minute\<close> and one session and uses them for every request; the
  model stops where the files are written and returns what would be written.
\<close>

record args =
  symbols :: "string list"
  api_key_arg :: "string option"
  start_arg :: "string option"
  end_arg :: "string option"
  output_path :: string
  outputsize :: string
  calls_per_minute :: int
  adjusted :: bool
  no_proxy :: bool
  timeout :: int

subsection \<open>\<^verbatim>\<open>main\<close> of \<^verbatim>\<open>fetch_a_share_info.py\<close>\<close>

fun info_loop ::
  "'f pylib \<Rightarrow> 'f transport \<Rightarrow> string \<Rightarrow> string list \<Rightarrow> world \<Rightarrow> 'f dict list \<times> world" where
  "info_loop L T api_key [] w = ([], w)"
| "info_loop L T api_key (raw_symbol # rest) w =
     (let symbol = normalize_a_share_symbol raw_symbol in
      case fetch_stock_comprehensive_info L T symbol api_key w of (result, w1) \<Rightarrow>
      case info_loop L T api_key rest w1 of (results, w2) \<Rightarrow> (result # results, w2))"

definition main_info ::
  "'f pylib \<Rightarrow> 'f transport \<Rightarrow> args \<Rightarrow> string option \<Rightarrow> world
     \<Rightarrow> ('f error + 'f dict list) \<times> world" where
  "main_info L T a env_api_key w =
     (let api_key = ''DBW1NM92621232126K'' in
      if api_key = [] then (Inl (SystemExit MissingApiKey), w)
      else
        case info_loop L T api_key (symbols a) w of
          (all_results, w') \<Rightarrow> (Inr all_results, w'))"

subsection \<open>\<^verbatim>\<open>main\<close> of \<^verbatim>\<open>fetch_a_shares.py\<close>\<close>

text \<open>A row of the data frame that \<^verbatim>\<open>parse_daily_to_dataframe\<close> builds.\<close>

record 'f bar =
  bar_symbol :: string
  bar_date :: date
  bar_open :: 'f
  bar_high :: 'f
  bar_low :: 'f
  bar_close :: 'f
  bar_adjusted_close :: 'f
  bar_volume :: int
  bar_dividend_amount :: 'f
  bar_split_coefficient :: 'f

definition get_float_or :: "'f pylib \<Rightarrow> 'f json \<Rightarrow> string \<Rightarrow> 'f json \<Rightarrow> 'f error + 'f" where
  "get_float_or L x k dflt = ebind (py_get x k dflt) (py_float L)"

definition bar_of :: "'f pylib \<Rightarrow> string \<Rightarrow> string \<times> 'f json \<Rightarrow> 'f error + 'f bar" where
  "bar_of L symbol item =
     (case item of (d_str, values) \<Rightarrow>
        (case strptime L d_str ''%Y-%m-%d'' of
           None \<Rightarrow> Inl ValueError
         | Some d \<Rightarrow>
             ebind (get_float_or L values ''1. open'' (JStr ''nan'')) (\<lambda>opn.
             ebind (get_float_or L values ''2. high'' (JStr ''nan'')) (\<lambda>high.
             ebind (get_float_or L values ''3. low'' (JStr ''nan'')) (\<lambda>low.
             ebind (get_float_or L values ''4. close'' (JStr ''nan'')) (\<lambda>cls.
             ebind (ebind (py_get values ''4. close'' (JStr ''nan''))
                      (get_float_or L values ''5. adjusted close'')) (\<lambda>adjusted_close.
             ebind (ebind (ebind (py_get values ''5. volume'' (JInt 0))
                      (get_float_or L values ''6. volume''))
                      (\<lambda>x. case int_of_float L x of Some i \<Rightarrow> Inr i | None \<Rightarrow> Inl ValueError))
               (\<lambda>vol.
             ebind (get_float_or L values ''7. dividend amount'' (JFloat (float_of_int L 0)))
               (\<lambda>dividend_amount.
             ebind (get_float_or L values ''8. split coefficient'' (JFloat (float_of_int L 1)))
               (\<lambda>split_coefficient.
             Inr \<lparr>bar_symbol = symbol, bar_date = d, bar_open = opn, bar_high = high,
                  bar_low = low, bar_close = cls, bar_adjusted_close = adjusted_close,
                  bar_volume = vol, bar_dividend_amount = dividend_amount,
                  bar_split_coefficient = split_coefficient\<rparr>))))))))))"

fun bars_of :: "'f pylib \<Rightarrow> string \<Rightarrow> (string \<times> 'f json) list \<Rightarrow> 'f error + 'f bar list" where
  "bars_of L symbol [] = Inr []"
| "bars_of L symbol (item # items) =
     ebind (bar_of L symbol item) (\<lambda>r.
     ebind (bars_of L symbol items) (\<lambda>rs. Inr (r # rs)))"

definition parse_daily_to_dataframe :: "'f pylib \<Rightarrow> string \<Rightarrow> 'f dict \<Rightarrow> 'f error + 'f bar list" where
  "parse_daily_to_dataframe L symbol payload =
     (case dict_get payload ''Time Series (Daily)'' (JObj []) of
        JObj ts \<Rightarrow> bars_of L symbol (AList.clearjunk ts)
      | _ \<Rightarrow> Inl AttributeError)"

definition parse_date :: "'f pylib \<Rightarrow> string option \<Rightarrow> 'f error + date option" where
  "parse_date L d =
     (case d of
        None \<Rightarrow> Inr None
      | Some s \<Rightarrow>
          if s = [] then Inr None
          else (case dateutil_parse L s of None \<Rightarrow> Inl ValueError | Some x \<Rightarrow> Inr (Some x)))"

definition date_filter :: "date option \<Rightarrow> date option \<Rightarrow> 'f bar list \<Rightarrow> 'f bar list" where
  "date_filter start_date end_date df =
     (let df1 = (case start_date of
                   None \<Rightarrow> df
                 | Some s \<Rightarrow> filter (\<lambda>r. toordinal s \<le> toordinal (bar_date r)) df)
      in case end_date of
           None \<Rightarrow> df1
         | Some e \<Rightarrow> filter (\<lambda>r. toordinal (bar_date r) \<le> toordinal e) df1)"

fun shares_loop ::
  "'f pylib \<Rightarrow> 'f transport \<Rightarrow> string \<Rightarrow> string \<Rightarrow> string \<Rightarrow> date option \<Rightarrow> date option
     \<Rightarrow> string list \<Rightarrow> 'f bar list list \<Rightarrow> world \<Rightarrow> ('f error + 'f bar list list) \<times> world" where
  "shares_loop L T api_key osize function_name start_date end_date [] frames w = (Inr frames, w)"
| "shares_loop L T api_key osize function_name start_date end_date (raw_symbol # rest) frames w =
     (let symbol = normalize_a_share_symbol raw_symbol in
      case fetch_alpha_vantage_daily T symbol api_key osize function_name 5 w of
        (Inl e, w1) \<Rightarrow> (Inl e, w1)
      | (Inr payload, w1) \<Rightarrow>
          (case parse_daily_to_dataframe L symbol payload of
             Inl e \<Rightarrow> (Inl e, w1)
           | Inr df \<Rightarrow>
               if df = [] then
                 shares_loop L T api_key osize function_name start_date end_date rest frames w1
               else
                 shares_loop L T api_key osize function_name start_date end_date rest
                   (frames @ [date_filter start_date end_date df]) w1))"

definition main_shares ::
  "'f pylib \<Rightarrow> 'f transport \<Rightarrow> args \<Rightarrow> string option \<Rightarrow> world
     \<Rightarrow> ('f error + 'f bar list list) \<times> world" where
  "main_shares L T a env_api_key w =
     (let api_key = ''DBW1NM92621232126K'' in
      if api_key = [] then (Inl (SystemExit MissingApiKey), w)
      else
        (case parse_date L (start_arg a) of
           Inl e \<Rightarrow> (Inl e, w)
         | Inr start_date \<Rightarrow>
             (case parse_date L (end_arg a) of
                Inl e \<Rightarrow> (Inl e, w)
              | Inr end_date \<Rightarrow>
                  if (case (start_date, end_date) of
                        (Some s, Some e) \<Rightarrow> toordinal e < toordinal s
                      | _ \<Rightarrow> False)
                  then (Inl (SystemExit StartAfterEnd), w)
                  else
                    let function_name =
                          (if adjusted a then ''TIME_SERIES_DAILY_ADJUSTED''
                           else ''TIME_SERIES_DAILY'')
                    in case shares_loop L T api_key (outputsize a) function_name
                              start_date end_date (symbols a) [] w of
                         (Inl e, w') \<Rightarrow> (Inl e, w')
                       | (Inr frames, w') \<Rightarrow>
                           if frames = [] then (Inl (SystemExit NoData), w')
                           else (Inr frames, w'))))"


section \<open>An instance of the library for evaluation\<close>

text \<open>
  For evaluating the model on concrete inputs: floats are exact rationals, numbers are
  read from plain decimal literals, \<open>round\<close> rounds half to even, dates are read
  from the two formats the scripts use, and an integer or a quotient is too large from
  \<open>2 ^ 1024 - 2 ^ 970\<close> on, as for a binary64 float. The theorems below hold for every library; this
  instance only serves to run examples, at values where binary floating point is exact.
\<close>

definition digit_val :: "char \<Rightarrow> nat" where
  "digit_val c = of_char c - 48"

definition is_digit :: "char \<Rightarrow> bool" where
  "is_digit c = (let n = (of_char c :: nat) in 48 \<le> n \<and> n \<le> 57)"

definition digits_val :: "string \<Rightarrow> nat" where
  "digits_val s = foldl (\<lambda>n c. 10 * n + digit_val c) 0 s"

definition unsigned_decimal :: "string \<Rightarrow> rat option" where
  "unsigned_decimal s =
     (let ip = takeWhile is_digit s; rest = dropWhile is_digit s in
      if ip = [] then None
      else if rest = [] then Some (of_nat (digits_val ip))
      else if hd rest = CHR ''.'' \<and> tl rest \<noteq> [] \<and> list_all is_digit (tl rest) then
        Some (of_nat (digits_val ip) + of_nat (digits_val (tl rest)) / 10 ^ length (tl rest))
      else None)"

definition decimal :: "string \<Rightarrow> rat option" where
  "decimal s =
     (case s of
        [] \<Rightarrow> None
      | c # r \<Rightarrow> if c = CHR ''-'' then map_option uminus (unsigned_decimal r) else unsigned_decimal s)"

definition integer_literal :: "string \<Rightarrow> int option" where
  "integer_literal s =
     (case s of
        [] \<Rightarrow> None
      | c # r \<Rightarrow>
          if c = CHR ''-'' then
            (if r \<noteq> [] \<and> list_all is_digit r then Some (- int (digits_val r)) else None)
          else if list_all is_digit s then Some (int (digits_val s)) else None)"

definition round_half_even :: "rat \<Rightarrow> int" where
  "round_half_even x =
     (let f = \<lfloor>x\<rfloor>; d = x - of_int f in
      if d < 1 / 2 then f else if 1 / 2 < d then f + 1 else if even f then f else f + 1)"

definition days_in_month :: "int \<Rightarrow> int \<Rightarrow> int" where
  "days_in_month y m =
     (if m = 2 then (if is_leap y then 29 else 28)
      else if m = 4 \<or> m = 6 \<or> m = 9 \<or> m = 11 then 30 else 31)"

definition make_date :: "string \<Rightarrow> string \<Rightarrow> string \<Rightarrow> date option" where
  "make_date ys ms ds =
     (if list_all is_digit (ys @ ms @ ds) then
        let y = int (digits_val ys); m = int (digits_val ms); d = int (digits_val ds) in
        if 1 \<le> y \<and> 1 \<le> m \<and> m \<le> 12 \<and> 1 \<le> d \<and> d \<le> days_in_month y m
        then Some \<lparr>year = y, month = m, day = d\<rparr> else None
      else None)"

definition make_time :: "string \<Rightarrow> bool" where
  "make_time s =
     (length s = 6 \<and> list_all is_digit s \<and> digits_val (take 2 s) \<le> 23
      \<and> digits_val (take 2 (drop 2 s)) \<le> 59 \<and> digits_val (drop 4 s) \<le> 61)"

definition exact_strptime :: "string \<Rightarrow> string \<Rightarrow> date option" where
  "exact_strptime s fmt =
     (if fmt = ''%Y%m%dT%H%M%S'' then
        (if length s = 15 \<and> s ! 8 = CHR ''T'' \<and> make_time (drop 9 s)
         then make_date (take 4 s) (take 2 (drop 4 s)) (take 2 (drop 6 s)) else None)
      else if fmt = ''%Y-%m-%d'' then
        (if length s = 10 \<and> s ! 4 = CHR ''-'' \<and> s ! 7 = CHR ''-''
         then make_date (take 4 s) (take 2 (drop 5 s)) (take 2 (drop 8 s)) else None)
      else None)"

definition pad :: "nat \<Rightarrow> int \<Rightarrow> string" where
  "pad n i = map (\<lambda>k. char_of (48 + (i div 10 ^ k) mod 10)) (rev [0..<n])"

definition exact_strftime :: "date \<Rightarrow> string \<Rightarrow> string" where
  "exact_strftime d fmt =
     (if fmt = ''%Y-%m-%d'' then pad 4 (year d) @ ''-'' @ pad 2 (month d) @ ''-'' @ pad 2 (day d)
      else fmt)"

definition exact_lib :: "date \<Rightarrow> rat pylib" where
  "exact_lib now =
     \<lparr>float_of_str = decimal,
      int_too_large = (\<lambda>i. 2 ^ 1024 - 2 ^ 970 \<le> \<bar>i\<bar>),
      float_of_int = of_int,
      int_of_str = integer_literal,
      int_of_float = (\<lambda>x. Some (if 0 \<le> x then \<lfloor>x\<rfloor> else \<lceil>x\<rceil>)),
      quotient_too_large = (\<lambda>a b. (2 ^ 1024 - 2 ^ 970) * \<bar>b\<bar> \<le> \<bar>a\<bar>),
      truediv_int = (\<lambda>a b. of_int a / of_int b),
      fadd = (+), fsub = (-), fmul = (*), fdiv = (/),
      fpos = (\<lambda>x. 0 < x),
      fnonzero = (\<lambda>x. x \<noteq> 0),
      fround = (\<lambda>n x. of_int (round_half_even (x * 10 ^ n)) / 10 ^ n),
      strptime = exact_strptime,
      strftime = exact_strftime,
      today = now,
      dateutil_parse = (\<lambda>s. exact_strptime s ''%Y-%m-%d'')\<rparr>"


section \<open>Vocabulary of the properties\<close>

text \<open>
  Predicates in which the properties are stated, and the concrete inputs on which they
  are evaluated. \<open>endpoint_params\<close> describes the query parameters of a request, and
  \<open>requested\<close> says that such a request was sent between two states of the world;
  \<open>partial_record\<close> is the record an adapter contributes to the merge.
\<close>

definition endpoint_params :: "string \<Rightarrow> string \<Rightarrow> string \<Rightarrow> params \<Rightarrow> bool" where
  "endpoint_params func symbol api_key ps =
     (map_of ps ''function'' = Some func \<and> map_of ps ''symbol'' = Some symbol
      \<and> map_of ps ''apikey'' = Some api_key)"

definition requested :: "string \<Rightarrow> string \<Rightarrow> string \<Rightarrow> world \<Rightarrow> world \<Rightarrow> bool" where
  "requested func symbol api_key w w' =
     (\<exists>ps \<in> set (drop (length (sent w)) (sent w')). endpoint_params func symbol api_key ps)"

definition partial_record :: "'f error + 'f dict \<Rightarrow> 'f dict" where
  "partial_record r = (case r of Inl e \<Rightarrow> [] | Inr p \<Rightarrow> p)"

definition demo_transport :: "rat transport" where
  "demo_transport n ps =
     (if map_of ps ''function'' = Some ''OVERVIEW'' then Response 500 Invalid
      else if map_of ps ''function'' = Some ''GLOBAL_QUOTE'' then
        Response 200 (Json [(''Global Quote'',
          JObj [(''05. price'', JStr ''12.5''), (''10. change percent'', JStr ''1.5%'')])])
      else if map_of ps ''function'' = Some ''TIME_SERIES_DAILY'' then
        Response 200 (Json [(''Time Series (Daily)'', JObj
          [(''2024-08-14'', JObj [(''1. open'', JStr ''4.0''), (''4. close'', JStr ''5.0''),
                                  (''5. volume'', JStr ''100'')]),
           (''2024-08-13'', JObj [(''1. open'', JStr ''1.0''), (''4. close'', JStr ''0''),
                                  (''5. volume'', JStr ''200'')])])])
      else Response 200 (Json [(''Error Message'', JStr ''Invalid API call'')]))"




definition demo_today :: date where
  "demo_today = \<lparr>year = 2024, month = 8, day = 15\<rparr>"



definition old_item :: "rat json" where
  "old_item = JObj [(''title'', JStr ''old''), (''time_published'', JStr ''20240101T000000''),
     (''overall_sentiment_score'', JFloat (1 / 2)), (''overall_sentiment_label'', JStr ''positive'')]"

definition pos_item :: "rat json" where
  "pos_item = JObj [(''title'', JStr ''up''), (''time_published'', JStr ''20240814T120000''),
     (''summary'', JStr ''s''), (''overall_sentiment_score'', JFloat (1 / 2)),
     (''overall_sentiment_label'', JStr ''positive'')]"

definition neg_item :: "rat json" where
  "neg_item = JObj [(''title'', JStr ''down''), (''time_published'', JStr ''20240808T093000''),
     (''overall_sentiment_score'', JFloat (- (1 / 4))), (''overall_sentiment_label'', JStr ''negative'')]"

definition bad_item :: "rat json" where
  "bad_item = JObj [(''title'', JStr ''bad''), (''time_published'', JStr ''yesterday''),
     (''overall_sentiment_score'', JFloat 1), (''overall_sentiment_label'', JStr ''positive'')]"

definition demo_feed :: "rat json list" where
  "demo_feed = [pos_item, bad_item, old_item, pos_item, old_item, old_item, neg_item, old_item,
                old_item, old_item, old_item, old_item]"

definition late_feed :: "rat json list" where
  "late_feed = replicate 9 old_item @ [pos_item, pos_item, neg_item]"

definition huge_item :: "rat json" where
  "huge_item = JObj [(''title'', JStr ''up''), (''time_published'', JStr ''20240814T120000''),
     (''summary'', JStr ''s''), (''overall_sentiment_score'', JInt (10 ^ 400)),
     (''overall_sentiment_label'', JStr ''positive'')]"

text \<open>
  The vocabulary of the claim about the news adapter, in terms of what the parser reads
  from an item: an item is published recently when its \<^verbatim>\<open>time_published\<close> is a
  non-empty string that \<^verbatim>\<open>strptime\<close> accepts and whose date is at most 7 days before
  today; \<open>label_of\<close> and \<open>score_of\<close> are its sentiment label and score. An item is
  well formed when it is a JSON object and, if published recently, its summary is a
  string (or counts as false). \<open>sum_scores\<close> adds scores up from the integer 0, as
  the parser does, and \<open>mean_score\<close> divides the sum by their number; both raise when
  a score is not a number or a number is too large for a float.
\<close>

definition published_recently :: "'f pylib \<Rightarrow> 'f json \<Rightarrow> bool" where
  "published_recently L item =
     (case item of
        JObj it \<Rightarrow>
          (case dict_get it ''time_published'' (JStr '''') of
             JStr s \<Rightarrow>
               s \<noteq> [] \<and>
               (case strptime L s ''%Y%m%dT%H%M%S'' of
                  Some d \<Rightarrow> toordinal (today L) - 7 \<le> toordinal d
                | None \<Rightarrow> False)
           | _ \<Rightarrow> False)
      | _ \<Rightarrow> False)"

definition label_of :: "'f json \<Rightarrow> 'f json" where
  "label_of item =
     (case item of JObj it \<Rightarrow> dict_get it ''overall_sentiment_label'' (JStr '''') | _ \<Rightarrow> JNull)"

definition score_of :: "'f json \<Rightarrow> 'f json" where
  "score_of item =
     (case item of JObj it \<Rightarrow> dict_get it ''overall_sentiment_score'' (JInt 0) | _ \<Rightarrow> JNull)"

definition summary_ok :: "'f pylib \<Rightarrow> 'f json \<Rightarrow> bool" where
  "summary_ok L v = (case v of JStr s \<Rightarrow> True | _ \<Rightarrow> \<not> truthy L v)"

definition well_formed_item :: "'f pylib \<Rightarrow> 'f json \<Rightarrow> bool" where
  "well_formed_item L item =
     (case item of
        JObj it \<Rightarrow>
          \<not> published_recently L item \<or> summary_ok L (dict_get it ''summary'' (JStr ''''))
      | _ \<Rightarrow> False)"

definition add_scores :: "'f pylib \<Rightarrow> 'f number \<Rightarrow> 'f json list \<Rightarrow> 'f error + 'f number" where
  "add_scores L t scores = foldl (\<lambda>acc s. ebind acc (\<lambda>t. py_add L t s)) (Inr t) scores"

definition sum_scores :: "'f pylib \<Rightarrow> 'f json list \<Rightarrow> 'f error + 'f number" where
  "sum_scores L scores = add_scores L (IntNum 0) scores"

definition mean_score :: "'f pylib \<Rightarrow> 'f json list \<Rightarrow> 'f error + 'f" where
  "mean_score L scores =
     ebind (sum_scores L scores) (\<lambda>t. py_truediv L t (int (length scores)))"


definition uses_key :: "string \<Rightarrow> params \<Rightarrow> bool" where
  "uses_key api_key ps = (map_of ps ''apikey'' = Some api_key)"

definition not_exit :: "'f error \<Rightarrow> bool" where
  "not_exit e = (case e of SystemExit x \<Rightarrow> False | _ \<Rightarrow> True)"

definition demo_args :: args where
  "demo_args =
     \<lparr>symbols = [''600519'', ''000001''], api_key_arg = Some ''user-key'', start_arg = None,
      end_arg = None, output_path = ''out'', outputsize = ''compact'', calls_per_minute = 5,
      adjusted = False, no_proxy = False, timeout = 30\<rparr>"

definition demo_bars :: "rat dict" where
  "demo_bars =
     [(''Time Series (Daily)'', JObj
        [(''2024-08-14'', JObj [(''1. open'', JStr ''10.50''), (''2. high'', JStr ''10.75''),
            (''3. low'', JStr ''10.00''), (''4. close'', JStr ''10.25''),
            (''5. volume'', JStr ''100'')])])]"

definition failing_first :: "rat transport" where
  "failing_first n ps =
     (if map_of ps ''symbol'' = Some ''600519.SHH'' then Response 500 Invalid
      else Response 200 (Json demo_bars))"

definition demo_request :: "string \<Rightarrow> params" where
  "demo_request symbol =
     [(''function'', ''TIME_SERIES_DAILY''), (''symbol'', symbol), (''outputsize'', ''compact''),
      (''datatype'', ''json''), (''apikey'', ''DBW1NM92621232126K'')]"


section \<open>Properties of identifier normalization\<close>






section \<open>Properties of the retrying fetchers\<close>

lemma retry_loop_all_continue:
  assumes "\<And>a w. body a w = (Continue, step a w)"
  shows "retry_loop body as w = (Inl ExhaustedRetries, foldl (\<lambda>w a. step a w) w as)"
  by (induction as arbitrary: w) (simp_all add: assms)

lemma foldl_backoff:
  "foldl (\<lambda>w a. w\<lparr>acquired := Suc (acquired w), sent := sent w @ [ps], slept := slept w @ [f a]\<rparr>) w as
     = w\<lparr>acquired := acquired w + length as, sent := sent w @ replicate (length as) ps,
          slept := slept w @ map f as\<rparr>"
  by (induction as arbitrary: w) (simp_all add: replicate_app_Cons_same)

lemma data_attempt_transient:
  assumes "T (length (sent w)) ps = RequestException \<or> non_200 (T (length (sent w)) ps)"
  shows "fetch_alpha_vantage_data_attempt T ps attempt w
       = (Continue, w\<lparr>acquired := Suc (acquired w), sent := sent w @ [ps],
                       slept := slept w @ [min 30 (attempt * 2)]\<rparr>)"
  using assms
  by (auto simp: fetch_alpha_vantage_data_attempt_def session_get_def rate_limiter_wait_def
      time_sleep_def non_200_def split: reply.splits)

lemma daily_attempt_transient:
  assumes "T (length (sent w)) ps = RequestException \<or> non_200 (T (length (sent w)) ps)"
  shows "fetch_alpha_vantage_daily_attempt T ps attempt w
       = (Continue, w\<lparr>acquired := Suc (acquired w), sent := sent w @ [ps],
                       slept := slept w @ [min 60 (attempt * 2)]\<rparr>)"
  using assms
  by (auto simp: fetch_alpha_vantage_daily_attempt_def session_get_def rate_limiter_wait_def
      time_sleep_def non_200_def split: reply.splits)

lemma data_loop_transient:
  assumes "\<forall>n ps. T n ps = RequestException \<or> non_200 (T n ps)"
  shows "retry_loop (fetch_alpha_vantage_data_attempt T ps) as w
       = (Inl ExhaustedRetries,
          w\<lparr>acquired := acquired w + length as, sent := sent w @ replicate (length as) ps,
            slept := slept w @ map (\<lambda>a. min 30 (a * 2)) as\<rparr>)"
proof -
  have "\<And>a w. fetch_alpha_vantage_data_attempt T ps a w
      = (Continue, w\<lparr>acquired := Suc (acquired w), sent := sent w @ [ps],
                      slept := slept w @ [min 30 (a * 2)]\<rparr>)"
    using assms by (intro data_attempt_transient) blast
  from retry_loop_all_continue [of "fetch_alpha_vantage_data_attempt T ps", OF this]
  show ?thesis
    by (simp add: foldl_backoff)
qed

lemma daily_loop_transient:
  assumes "\<forall>n ps. T n ps = RequestException \<or> non_200 (T n ps)"
  shows "retry_loop (fetch_alpha_vantage_daily_attempt T ps) as w
       = (Inl ExhaustedRetries,
          w\<lparr>acquired := acquired w + length as, sent := sent w @ replicate (length as) ps,
            slept := slept w @ map (\<lambda>a. min 60 (a * 2)) as\<rparr>)"
proof -
  have "\<And>a w. fetch_alpha_vantage_daily_attempt T ps a w
      = (Continue, w\<lparr>acquired := Suc (acquired w), sent := sent w @ [ps],
                      slept := slept w @ [min 60 (a * 2)]\<rparr>)"
    using assms by (intro daily_attempt_transient) blast
  from retry_loop_all_continue [of "fetch_alpha_vantage_daily_attempt T ps", OF this]
  show ?thesis
    by (simp add: foldl_backoff)
qed

lemma data_attempt_error:
  assumes "T (length (sent w)) ps = Response 200 (Json data)"
    and "\<not> throttled data" and "map_of data ''Error Message'' = Some msg"
  shows "fetch_alpha_vantage_data_attempt T ps attempt w
       = (Raise (UpstreamError msg), w\<lparr>acquired := Suc (acquired w), sent := sent w @ [ps]\<rparr>)"
  using assms
  by (simp add: fetch_alpha_vantage_data_attempt_def session_get_def rate_limiter_wait_def
      throttled_def)

lemma daily_attempt_error:
  assumes "T (length (sent w)) ps = Response 200 (Json data)"
    and "\<not> throttled data" and "map_of data ''Error Message'' = Some msg"
  shows "fetch_alpha_vantage_daily_attempt T ps attempt w
       = (Raise (UpstreamError msg), w\<lparr>acquired := Suc (acquired w), sent := sent w @ [ps]\<rparr>)"
  using assms
  by (simp add: fetch_alpha_vantage_daily_attempt_def session_get_def rate_limiter_wait_def
      throttled_def)

lemma upto_first: "1 \<le> n \<Longrightarrow> [1..n] = 1 # [2..n]"
  by (simp add: upto_rec1)

text \<open>
  Claim C4, as amended. When every reply has a status other than 200 and the budget
  \<open>max_retries\<close> is not negative, both fetchers send exactly \<open>max_retries\<close> requests
  and raise \<open>ExhaustedRetries\<close>. When the budget is at least 1 and the first reply is a
  200 body with an \<^verbatim>\<open>Error Message\<close> key and without the keys \<^verbatim>\<open>Note\<close> and
  \<^verbatim>\<open>Information\<close>, both send exactly one request and raise \<open>UpstreamError\<close> with
  the value of that key.
\<close>

theorem retry_policy:
  fixes T :: "'f transport"
  shows "((\<forall>n ps. non_200 (T n ps)) \<and> 0 \<le> max_retries \<longrightarrow>
            fst (fetch_alpha_vantage_data T func symbol api_key extra max_retries w)
              = Inl ExhaustedRetries
          \<and> int (length (sent (snd (fetch_alpha_vantage_data T func symbol api_key extra max_retries w))))
              = int (length (sent w)) + max_retries
          \<and> fst (fetch_alpha_vantage_daily T symbol api_key osize func max_retries w)
              = Inl ExhaustedRetries
          \<and> int (length (sent (snd (fetch_alpha_vantage_daily T symbol api_key osize func max_retries w))))
              = int (length (sent w)) + max_retries)
       \<and> ((\<forall>ps. T (length (sent w)) ps = Response 200 (Json data)) \<and> 1 \<le> max_retries
            \<and> map_of data ''Error Message'' = Some msg \<and> \<not> throttled data \<longrightarrow>
            fst (fetch_alpha_vantage_data T func symbol api_key extra max_retries w)
              = Inl (UpstreamError msg)
          \<and> length (sent (snd (fetch_alpha_vantage_data T func symbol api_key extra max_retries w)))
              = length (sent w) + 1
          \<and> fst (fetch_alpha_vantage_daily T symbol api_key osize func max_retries w)
              = Inl (UpstreamError msg)
          \<and> length (sent (snd (fetch_alpha_vantage_daily T symbol api_key osize func max_retries w)))
              = length (sent w) + 1)"
proof (intro conjI impI)
  assume a: "(\<forall>n ps. non_200 (T n ps)) \<and> 0 \<le> max_retries"
  then have tr: "\<forall>n ps. T n ps = RequestException \<or> non_200 (T n ps)"
    by blast
  show "fst (fetch_alpha_vantage_data T func symbol api_key extra max_retries w)
      = Inl ExhaustedRetries"
    by (simp add: fetch_alpha_vantage_data_def Let_def data_loop_transient [OF tr])
  show "int (length (sent (snd (fetch_alpha_vantage_data T func symbol api_key extra max_retries w))))
      = int (length (sent w)) + max_retries"
    using a by (simp add: fetch_alpha_vantage_data_def Let_def data_loop_transient [OF tr])
  show "fst (fetch_alpha_vantage_daily T symbol api_key osize func max_retries w)
      = Inl ExhaustedRetries"
    by (simp add: fetch_alpha_vantage_daily_def Let_def daily_loop_transient [OF tr])
  show "int (length (sent (snd (fetch_alpha_vantage_daily T symbol api_key osize func max_retries w))))
      = int (length (sent w)) + max_retries"
    using a by (simp add: fetch_alpha_vantage_daily_def Let_def daily_loop_transient [OF tr])
next
  assume b: "(\<forall>ps. T (length (sent w)) ps = Response 200 (Json data)) \<and> 1 \<le> max_retries
      \<and> map_of data ''Error Message'' = Some msg \<and> \<not> throttled data"
  then have up: "[1..max_retries] = 1 # [2..max_retries]"
    by (simp add: upto_first)
  from b have r: "\<And>ps. T (length (sent w)) ps = Response 200 (Json data)"
    and nt: "\<not> throttled data" and em: "map_of data ''Error Message'' = Some msg"
    by blast+
  have de: "\<And>ps a. fetch_alpha_vantage_data_attempt T ps a w
      = (Raise (UpstreamError msg), w\<lparr>acquired := Suc (acquired w), sent := sent w @ [ps]\<rparr>)"
    using r nt em by (rule data_attempt_error)
  have dd: "\<And>ps a. fetch_alpha_vantage_daily_attempt T ps a w
      = (Raise (UpstreamError msg), w\<lparr>acquired := Suc (acquired w), sent := sent w @ [ps]\<rparr>)"
    using r nt em by (rule daily_attempt_error)
  show "fst (fetch_alpha_vantage_data T func symbol api_key extra max_retries w)
      = Inl (UpstreamError msg)"
    by (simp add: fetch_alpha_vantage_data_def Let_def up de)
  show "length (sent (snd (fetch_alpha_vantage_data T func symbol api_key extra max_retries w)))
      = length (sent w) + 1"
    by (simp add: fetch_alpha_vantage_data_def Let_def up de)
  show "fst (fetch_alpha_vantage_daily T symbol api_key osize func max_retries w)
      = Inl (UpstreamError msg)"
    by (simp add: fetch_alpha_vantage_daily_def Let_def up dd)
  show "length (sent (snd (fetch_alpha_vantage_daily T symbol api_key osize func max_retries w)))
      = length (sent w) + 1"
    by (simp add: fetch_alpha_vantage_daily_def Let_def up dd)
qed


theorem retry_policy_witness:
  "non_200 (Response 500 Invalid :: rat reply)
   \<and> fst (fetch_alpha_vantage_data (\<lambda>n ps. Response 500 Invalid :: rat reply)
          ''GLOBAL_QUOTE'' ''600519.SHH'' ''key'' [] 3 world0) = Inl ExhaustedRetries
   \<and> length (sent (snd (fetch_alpha_vantage_data (\<lambda>n ps. Response 500 Invalid :: rat reply)
          ''GLOBAL_QUOTE'' ''600519.SHH'' ''key'' [] 3 world0))) = 3
   \<and> fst (fetch_alpha_vantage_daily
          (\<lambda>n ps. Response 200 (Json [(''Error Message'', JStr ''Invalid API call'')]) :: rat reply)
          ''600519.SHH'' ''key'' ''full'' ''TIME_SERIES_DAILY'' 5 world0)
       = Inl (UpstreamError (JStr ''Invalid API call''))
   \<and> length (sent (snd (fetch_alpha_vantage_daily
          (\<lambda>n ps. Response 200 (Json [(''Error Message'', JStr ''Invalid API call'')]) :: rat reply)
          ''600519.SHH'' ''key'' ''full'' ''TIME_SERIES_DAILY'' 5 world0))) = 1"
proof -
  have n: "non_200 (Response 500 Invalid :: rat reply)"
    by (simp add: non_200_def)
  have e: "map_of [(''Error Message'', JStr ''Invalid API call'' :: rat json)] ''Error Message''
      = Some (JStr ''Invalid API call'')"
    "\<not> throttled [(''Error Message'', JStr ''Invalid API call'' :: rat json)]"
    by (simp_all add: throttled_def has_key_def)
  from retry_policy [where T = "\<lambda>n ps. Response 500 Invalid :: rat reply" and max_retries = 3
      and w = world0 and func = "''GLOBAL_QUOTE''" and symbol = "''600519.SHH''"
      and api_key = "''key''" and extra = "[]"] n
  have a: "fst (fetch_alpha_vantage_data (\<lambda>n ps. Response 500 Invalid :: rat reply)
          ''GLOBAL_QUOTE'' ''600519.SHH'' ''key'' [] 3 world0) = Inl ExhaustedRetries
     \<and> length (sent (snd (fetch_alpha_vantage_data (\<lambda>n ps. Response 500 Invalid :: rat reply)
          ''GLOBAL_QUOTE'' ''600519.SHH'' ''key'' [] 3 world0))) = 3"
    by (simp add: world0_def)
  from retry_policy [where
      T = "\<lambda>n ps. Response 200 (Json [(''Error Message'', JStr ''Invalid API call'')]) :: rat reply"
      and max_retries = 5 and w = world0 and func = "''TIME_SERIES_DAILY''"
      and symbol = "''600519.SHH''" and api_key = "''key''" and osize = "''full''"
      and data = "[(''Error Message'', JStr ''Invalid API call'')]"
      and msg = "JStr ''Invalid API call''"] e
  have b: "fst (fetch_alpha_vantage_daily
          (\<lambda>n ps. Response 200 (Json [(''Error Message'', JStr ''Invalid API call'')]) :: rat reply)
          ''600519.SHH'' ''key'' ''full'' ''TIME_SERIES_DAILY'' 5 world0)
       = Inl (UpstreamError (JStr ''Invalid API call''))
     \<and> length (sent (snd (fetch_alpha_vantage_daily
          (\<lambda>n ps. Response 200 (Json [(''Error Message'', JStr ''Invalid API call'')]) :: rat reply)
          ''600519.SHH'' ''key'' ''full'' ''TIME_SERIES_DAILY'' 5 world0))) = 1"
    by (simp add: world0_def)
  from n a b show ?thesis
    by blast
qed

text \<open>
  The claim as stated fails when the body with the \<^verbatim>\<open>Error Message\<close> key also has a
  \<^verbatim>\<open>Note\<close> key: the throttle check comes first, so the fetcher sleeps and retries,
  and with a budget of 2 it ends in \<open>ExhaustedRetries\<close> after two requests.
\<close>

theorem retry_policy_counterexample:
  "has_key ''Error Message'' [(''Note'', JStr ''rate limit''), (''Error Message'', JStr ''bad'' :: rat json)]
   \<and> fetch_alpha_vantage_data
        (\<lambda>n ps. Response 200 (Json [(''Note'', JStr ''rate limit''), (''Error Message'', JStr ''bad'')])
           :: rat reply)
        ''OVERVIEW'' ''600519.SHH'' ''key'' [] 2 world0
      = (Inl ExhaustedRetries,
         \<lparr>sent = [[(''function'', ''OVERVIEW''), (''symbol'', ''600519.SHH''), (''apikey'', ''key''),
                   (''datatype'', ''json'')],
                  [(''function'', ''OVERVIEW''), (''symbol'', ''600519.SHH''), (''apikey'', ''key''),
                   (''datatype'', ''json'')]],
           slept = [15, 30], acquired = 2\<rparr>)"
  by code_simp

lemma retry_loop_Inr:
  assumes "retry_loop body as w = (Inr d, w')"
  shows "\<exists>a w1 w2. body a w1 = (Return d, w2)"
  using assms
proof (induction as arbitrary: w)
  case Nil
  then show ?case by simp
next
  case (Cons a as)
  obtain r w1 where b: "body a w = (r, w1)"
    by (cases "body a w")
  show ?case
  proof (cases r)
    case (Return x)
    with Cons.prems b have "x = d"
      by simp
    with Return b show ?thesis
      by blast
  next
    case (Raise e)
    with Cons.prems b show ?thesis
      by simp
  next
    case Continue
    with Cons.prems b have "retry_loop body as w1 = (Inr d, w')"
      by simp
    then show ?thesis
      by (rule Cons.IH)
  qed
qed

lemma daily_attempt_Return:
  assumes "fetch_alpha_vantage_daily_attempt T ps a w = (Return d, w')"
  shows "has_key ''Time Series (Daily)'' d \<and> \<not> throttled d \<and> \<not> has_key ''Error Message'' d"
  using assms
  by (auto simp: fetch_alpha_vantage_daily_attempt_def session_get_def throttled_def has_key_def
      split: reply.splits body.splits if_splits option.splits)

lemma daily_attempt_plain:
  assumes "T (length (sent w)) ps = Response 200 (Json data)"
    and "\<not> throttled data" and "\<not> has_key ''Error Message'' data"
  shows "fetch_alpha_vantage_daily_attempt T ps attempt w
       = (if has_key ''Time Series (Daily)'' data
          then (Return data, w\<lparr>acquired := Suc (acquired w), sent := sent w @ [ps]\<rparr>)
          else (Continue, w\<lparr>acquired := Suc (acquired w), sent := sent w @ [ps],
                             slept := slept w @ [min 60 (attempt * 2)]\<rparr>))"
  using assms
  by (simp add: fetch_alpha_vantage_daily_attempt_def session_get_def rate_limiter_wait_def
      time_sleep_def throttled_def has_key_def)

lemma data_attempt_plain:
  assumes "T (length (sent w)) ps = Response 200 (Json data)"
    and "\<not> throttled data" and "\<not> has_key ''Error Message'' data"
  shows "fetch_alpha_vantage_data_attempt T ps attempt w
       = (Return data, w\<lparr>acquired := Suc (acquired w), sent := sent w @ [ps]\<rparr>)"
  using assms
  by (simp add: fetch_alpha_vantage_data_attempt_def session_get_def rate_limiter_wait_def
      throttled_def has_key_def)

text \<open>
  Claim C5, as amended. \<^verbatim>\<open>fetch_alpha_vantage_daily\<close> only ever returns a body that has
  the key \<^verbatim>\<open>Time Series (Daily)\<close> (and none of the throttle and error keys); on a 200
  body without throttle and error keys an attempt returns the body when that key is
  present, and otherwise sleeps \<open>min 60 (attempt * 2)\<close> seconds and goes on.
  \<^verbatim>\<open>fetch_alpha_vantage_data\<close> has no success marker: an attempt returns every 200 body
  without throttle and error keys.
\<close>

theorem success_marker:
  fixes T :: "'f transport"
  shows "(fetch_alpha_vantage_daily T symbol api_key osize func max_retries w0 = (Inr d, w1)
            \<longrightarrow> has_key ''Time Series (Daily)'' d \<and> \<not> throttled d \<and> \<not> has_key ''Error Message'' d)
       \<and> (T (length (sent w)) ps = Response 200 (Json data) \<and> \<not> throttled data
            \<and> \<not> has_key ''Error Message'' data \<longrightarrow>
            (has_key ''Time Series (Daily)'' data \<longrightarrow>
               fetch_alpha_vantage_daily_attempt T ps attempt w
                 = (Return data, w\<lparr>acquired := Suc (acquired w), sent := sent w @ [ps]\<rparr>))
          \<and> (\<not> has_key ''Time Series (Daily)'' data \<longrightarrow>
               fetch_alpha_vantage_daily_attempt T ps attempt w
                 = (Continue, w\<lparr>acquired := Suc (acquired w), sent := sent w @ [ps],
                                 slept := slept w @ [min 60 (attempt * 2)]\<rparr>))
          \<and> fetch_alpha_vantage_data_attempt T ps attempt w
              = (Return data, w\<lparr>acquired := Suc (acquired w), sent := sent w @ [ps]\<rparr>))"
proof (intro conjI impI)
  assume "fetch_alpha_vantage_daily T symbol api_key osize func max_retries w0 = (Inr d, w1)"
  then obtain ps' a w' w'' where "fetch_alpha_vantage_daily_attempt T ps' a w' = (Return d, w'')"
    unfolding fetch_alpha_vantage_daily_def Let_def
    using retry_loop_Inr by blast
  then have m: "has_key ''Time Series (Daily)'' d \<and> \<not> throttled d \<and> \<not> has_key ''Error Message'' d"
    by (rule daily_attempt_Return)
  from m show "has_key ''Time Series (Daily)'' d" by blast
  from m show "\<not> throttled d" by blast
  from m show "\<not> has_key ''Error Message'' d" by blast
next
  assume a: "T (length (sent w)) ps = Response 200 (Json data) \<and> \<not> throttled data
      \<and> \<not> has_key ''Error Message'' data"
  then have r: "T (length (sent w)) ps = Response 200 (Json data)"
    and nt: "\<not> throttled data" and ne: "\<not> has_key ''Error Message'' data"
    by blast+
  have dp: "fetch_alpha_vantage_daily_attempt T ps attempt w
       = (if has_key ''Time Series (Daily)'' data
          then (Return data, w\<lparr>acquired := Suc (acquired w), sent := sent w @ [ps]\<rparr>)
          else (Continue, w\<lparr>acquired := Suc (acquired w), sent := sent w @ [ps],
                             slept := slept w @ [min 60 (attempt * 2)]\<rparr>))"
    using r nt ne by (rule daily_attempt_plain)
  show "fetch_alpha_vantage_data_attempt T ps attempt w
      = (Return data, w\<lparr>acquired := Suc (acquired w), sent := sent w @ [ps]\<rparr>)"
    using r nt ne by (rule data_attempt_plain)
  {
    assume "has_key ''Time Series (Daily)'' data"
    then show "fetch_alpha_vantage_daily_attempt T ps attempt w
        = (Return data, w\<lparr>acquired := Suc (acquired w), sent := sent w @ [ps]\<rparr>)"
      by (simp add: dp)
  }
  {
    assume "\<not> has_key ''Time Series (Daily)'' data"
    then show "fetch_alpha_vantage_daily_attempt T ps attempt w
        = (Continue, w\<lparr>acquired := Suc (acquired w), sent := sent w @ [ps],
                        slept := slept w @ [min 60 (attempt * 2)]\<rparr>)"
      by (simp add: dp)
  }
qed

theorem success_marker_witness:
  "fetch_alpha_vantage_daily
       (\<lambda>n ps. if n = 0 then Response 200 (Json [(''Meta Data'', JNull)])
                else Response 200 (Json [(''Time Series (Daily)'', JObj [])]) :: rat reply)
       ''600519.SHH'' ''key'' ''full'' ''TIME_SERIES_DAILY'' 5 world0
     = (Inr [(''Time Series (Daily)'', JObj [])],
        \<lparr>sent = replicate 2 [(''function'', ''TIME_SERIES_DAILY''), (''symbol'', ''600519.SHH''),
                  (''outputsize'', ''full''), (''datatype'', ''json''), (''apikey'', ''key'')],
          slept = [2], acquired = 2\<rparr>)
   \<and> has_key ''Time Series (Daily)'' [(''Time Series (Daily)'', JObj [] :: rat json)]
   \<and> fetch_alpha_vantage_daily_attempt
        (\<lambda>n ps. Response 200 (Json [(''Meta Data'', JNull)]) :: rat reply) [] 3 world0
      = (Continue, \<lparr>sent = [[]], slept = [6], acquired = 1\<rparr>)
   \<and> fetch_alpha_vantage_data_attempt
        (\<lambda>n ps. Response 200 (Json [(''Meta Data'', JNull)]) :: rat reply) [] 3 world0
      = (Return [(''Meta Data'', JNull)], \<lparr>sent = [[]], slept = [], acquired = 1\<rparr>)"
proof -
  let ?T = "\<lambda>n ps. if n = 0 then Response 200 (Json [(''Meta Data'', JNull)])
                else Response 200 (Json [(''Time Series (Daily)'', JObj [])]) :: rat reply"
  let ?U = "\<lambda>n ps. Response 200 (Json [(''Meta Data'', JNull)]) :: rat reply"
  let ?w1 = "\<lparr>sent = replicate 2 [(''function'', ''TIME_SERIES_DAILY''), (''symbol'', ''600519.SHH''),
                  (''outputsize'', ''full''), (''datatype'', ''json''), (''apikey'', ''key'')],
          slept = [2], acquired = 2\<rparr>"
  have run: "fetch_alpha_vantage_daily ?T ''600519.SHH'' ''key'' ''full'' ''TIME_SERIES_DAILY'' 5 world0
      = (Inr [(''Time Series (Daily)'', JObj [])], ?w1)"
    by code_simp
  have plain: "?U (length (sent world0)) [] = Response 200 (Json [(''Meta Data'', JNull)])
      \<and> \<not> throttled [(''Meta Data'', JNull :: rat json)]
      \<and> \<not> has_key ''Error Message'' [(''Meta Data'', JNull :: rat json)]"
    "\<not> has_key ''Time Series (Daily)'' [(''Meta Data'', JNull :: rat json)]"
    by (simp_all add: throttled_def has_key_def)
  from success_marker [where T = ?T and symbol = "''600519.SHH''" and api_key = "''key''"
      and osize = "''full''" and func = "''TIME_SERIES_DAILY''" and max_retries = 5
      and ?w0.0 = world0 and d = "[(''Time Series (Daily)'', JObj [])]" and ?w1.0 = ?w1] run
  have a: "has_key ''Time Series (Daily)'' [(''Time Series (Daily)'', JObj [] :: rat json)]"
    by blast
  from success_marker [where T = ?U and w = world0 and ps = "[]"
      and data = "[(''Meta Data'', JNull)]" and attempt = 3] plain
  have b: "fetch_alpha_vantage_daily_attempt ?U [] 3 world0
        = (Continue, world0\<lparr>acquired := Suc (acquired world0), sent := sent world0 @ [[]],
                               slept := slept world0 @ [min 60 (3 * 2)]\<rparr>)
      \<and> fetch_alpha_vantage_data_attempt ?U [] 3 world0
        = (Return [(''Meta Data'', JNull)],
           world0\<lparr>acquired := Suc (acquired world0), sent := sent world0 @ [[]]\<rparr>)"
    by blast
  from run a b show ?thesis
    by (simp add: world0_def)
qed

text \<open>
  The claim as stated fails for \<^verbatim>\<open>fetch_alpha_vantage_data\<close>: the empty JSON object
  has no key at all, and the first attempt returns it without any sleep.
\<close>

theorem success_marker_counterexample:
  "\<not> throttled ([] :: rat dict) \<and> \<not> has_key ''Error Message'' ([] :: rat dict)
   \<and> \<not> has_key ''Symbol'' ([] :: rat dict)
   \<and> fetch_alpha_vantage_data (\<lambda>n ps. Response 200 (Json []) :: rat reply)
        ''OVERVIEW'' ''600519.SHH'' ''key'' [] 3 world0
      = (Inr [],
         \<lparr>sent = [[(''function'', ''OVERVIEW''), (''symbol'', ''600519.SHH''), (''apikey'', ''key''),
                   (''datatype'', ''json'')]],
           slept = [], acquired = 1\<rparr>)"
  by code_simp

text \<open>
  Claim C6, as amended. An attempt that ends in a network failure or in a status other
  than 200 sleeps once, \<open>min 30 (attempt * 2)\<close> seconds in
  \<^verbatim>\<open>fetch_alpha_vantage_data\<close> and \<open>min 60 (attempt * 2)\<close> seconds in
  \<^verbatim>\<open>fetch_alpha_vantage_daily\<close>, and goes on to the next attempt; the two durations
  agree up to attempt 15. When every reply is of that kind, the sleeps of a whole call are
  these durations for the attempts 1 to \<open>max_retries\<close>.
\<close>

theorem backoff_sleep:
  fixes T :: "'f transport"
  shows "(T (length (sent w)) ps = RequestException \<or> non_200 (T (length (sent w)) ps) \<longrightarrow>
            fetch_alpha_vantage_data_attempt T ps attempt w
              = (Continue, w\<lparr>acquired := Suc (acquired w), sent := sent w @ [ps],
                              slept := slept w @ [min 30 (attempt * 2)]\<rparr>)
          \<and> fetch_alpha_vantage_daily_attempt T ps attempt w
              = (Continue, w\<lparr>acquired := Suc (acquired w), sent := sent w @ [ps],
                              slept := slept w @ [min 60 (attempt * 2)]\<rparr>))
       \<and> (attempt \<le> 15 \<longrightarrow> min 60 (attempt * 2) = min 30 (attempt * 2))
       \<and> ((\<forall>n ps. T n ps = RequestException \<or> non_200 (T n ps)) \<longrightarrow>
            slept (snd (fetch_alpha_vantage_data T func symbol api_key extra max_retries w))
              = slept w @ map (\<lambda>attempt. min 30 (attempt * 2)) [1..max_retries]
          \<and> slept (snd (fetch_alpha_vantage_daily T symbol api_key osize func max_retries w))
              = slept w @ map (\<lambda>attempt. min 60 (attempt * 2)) [1..max_retries])"
proof (intro conjI impI)
  assume a: "T (length (sent w)) ps = RequestException \<or> non_200 (T (length (sent w)) ps)"
  from a show "fetch_alpha_vantage_data_attempt T ps attempt w
      = (Continue, w\<lparr>acquired := Suc (acquired w), sent := sent w @ [ps],
                      slept := slept w @ [min 30 (attempt * 2)]\<rparr>)"
    by (rule data_attempt_transient)
  from a show "fetch_alpha_vantage_daily_attempt T ps attempt w
      = (Continue, w\<lparr>acquired := Suc (acquired w), sent := sent w @ [ps],
                      slept := slept w @ [min 60 (attempt * 2)]\<rparr>)"
    by (rule daily_attempt_transient)
next
  assume "attempt \<le> 15"
  then show "min 60 (attempt * 2) = min 30 (attempt * 2)"
    by simp
next
  assume tr: "\<forall>n ps. T n ps = RequestException \<or> non_200 (T n ps)"
  show "slept (snd (fetch_alpha_vantage_data T func symbol api_key extra max_retries w))
      = slept w @ map (\<lambda>attempt. min 30 (attempt * 2)) [1..max_retries]"
    by (simp add: fetch_alpha_vantage_data_def Let_def data_loop_transient [OF tr])
  show "slept (snd (fetch_alpha_vantage_daily T symbol api_key osize func max_retries w))
      = slept w @ map (\<lambda>attempt. min 60 (attempt * 2)) [1..max_retries]"
    by (simp add: fetch_alpha_vantage_daily_def Let_def daily_loop_transient [OF tr])
qed

theorem backoff_sleep_witness:
  "fetch_alpha_vantage_data_attempt (\<lambda>n ps. RequestException :: rat reply) [] 2 world0
     = (Continue, \<lparr>sent = [[]], slept = [4], acquired = 1\<rparr>)
   \<and> fetch_alpha_vantage_daily_attempt (\<lambda>n ps. RequestException :: rat reply) [] 2 world0
     = (Continue, \<lparr>sent = [[]], slept = [4], acquired = 1\<rparr>)
   \<and> slept (snd (fetch_alpha_vantage_data (\<lambda>n ps. RequestException :: rat reply)
        ''OVERVIEW'' ''600519.SHH'' ''key'' [] 3 world0)) = [2, 4, 6]
   \<and> slept (snd (fetch_alpha_vantage_daily (\<lambda>n ps. RequestException :: rat reply)
        ''600519.SHH'' ''key'' ''full'' ''TIME_SERIES_DAILY'' 5 world0)) = [2, 4, 6, 8, 10]"
proof -
  let ?T = "\<lambda>n ps. RequestException :: rat reply"
  have u3: "[1..3] = [1, 2, 3::int]" and u5: "[1..5] = [1, 2, 3, 4, 5::int]"
    by code_simp+
  from backoff_sleep [where T = ?T and w = world0 and ps = "[]" and attempt = 2
      and max_retries = 3 and func = "''OVERVIEW''" and symbol = "''600519.SHH''"
      and api_key = "''key''" and extra = "[]"]
  have a: "fetch_alpha_vantage_data_attempt ?T [] 2 world0
        = (Continue, \<lparr>sent = [[]], slept = [4], acquired = 1\<rparr>)
      \<and> fetch_alpha_vantage_daily_attempt ?T [] 2 world0
        = (Continue, \<lparr>sent = [[]], slept = [4], acquired = 1\<rparr>)
      \<and> slept (snd (fetch_alpha_vantage_data ?T ''OVERVIEW'' ''600519.SHH'' ''key'' [] 3 world0))
        = [2, 4, 6]"
    by (simp add: world0_def u3)
  from backoff_sleep [where T = ?T and w = world0 and max_retries = 5
      and func = "''TIME_SERIES_DAILY''" and symbol = "''600519.SHH''"
      and api_key = "''key''" and osize = "''full''"]
  have b: "slept (snd (fetch_alpha_vantage_daily ?T ''600519.SHH'' ''key'' ''full''
      ''TIME_SERIES_DAILY'' 5 world0)) = [2, 4, 6, 8, 10]"
    by (simp add: world0_def u5)
  from a b show ?thesis
    by blast
qed

text \<open>
  The claim as stated fails for \<^verbatim>\<open>fetch_alpha_vantage_daily\<close>, whose cap is 60: with a
  budget of 16 and status 500 on every attempt, the sleep of attempt 16 is 32 seconds,
  while \<open>min 30 (16 * 2)\<close> is 30.
\<close>

theorem backoff_sleep_counterexample:
  "non_200 (Response 500 Invalid :: rat reply)
   \<and> slept (snd (fetch_alpha_vantage_daily (\<lambda>n ps. Response 500 Invalid :: rat reply)
        ''600519.SHH'' ''key'' ''full'' ''TIME_SERIES_DAILY'' 16 world0))
      = [2, 4, 6, 8, 10, 12, 14, 16, 18, 20, 22, 24, 26, 28, 30, 32]
   \<and> min 30 (16 * 2) = (30 :: int)"
proof -
  have n: "non_200 (Response 500 Invalid :: rat reply)"
    by (simp add: non_200_def)
  then have tr: "\<forall>n ps. (\<lambda>n ps. Response 500 Invalid :: rat reply) n ps = RequestException
      \<or> non_200 ((\<lambda>n ps. Response 500 Invalid :: rat reply) n ps)"
    by simp
  have u: "map (\<lambda>a. min 60 (a * 2)) [1..16]
      = [2, 4, 6, 8, 10, 12, 14, 16, 18, 20, 22, 24, 26, 28, 30, 32::int]"
    by code_simp
  have "slept (snd (fetch_alpha_vantage_daily (\<lambda>n ps. Response 500 Invalid :: rat reply)
        ''600519.SHH'' ''key'' ''full'' ''TIME_SERIES_DAILY'' 16 world0))
      = slept world0 @ map (\<lambda>a. min 60 (a * 2)) [1..16]"
    unfolding fetch_alpha_vantage_daily_def Let_def daily_loop_transient [OF tr]
    by simp
  then have "slept (snd (fetch_alpha_vantage_daily (\<lambda>n ps. Response 500 Invalid :: rat reply)
        ''600519.SHH'' ''key'' ''full'' ''TIME_SERIES_DAILY'' 16 world0))
      = [2, 4, 6, 8, 10, 12, 14, 16, 18, 20, 22, 24, 26, 28, 30, 32]"
    by (simp only: u world0_def world.simps append_Nil)
  with n show ?thesis
    by simp
qed


section \<open>Properties of the aggregator\<close>

lemma map_of_dict_update:
  "map_of (dict_update d e) k = (case map_of (rev e) k of None \<Rightarrow> map_of d k | Some v \<Rightarrow> Some v)"
proof (induction e arbitrary: d)
  case Nil
  then show ?case by (simp add: dict_update_def)
next
  case (Cons a e)
  obtain k' v' where a: "a = (k', v')"
    by (cases a)
  have "dict_update d (a # e) = dict_update (AList.update k' v' d) e"
    by (simp add: dict_update_def a)
  then show ?case
    using Cons.IH [of "AList.update k' v' d"]
    by (auto simp: a update_conv' map_add_def split: option.splits)
qed

lemma attempt_sent:
  "sent (snd (fetch_alpha_vantage_data_attempt T ps a w)) = sent w @ [ps]"
  "sent (snd (fetch_alpha_vantage_daily_attempt T ps a w)) = sent w @ [ps]"
  by (auto simp: fetch_alpha_vantage_data_attempt_def fetch_alpha_vantage_daily_attempt_def
      session_get_def rate_limiter_wait_def time_sleep_def
      split: reply.splits body.splits option.splits)

lemma retry_loop_sent:
  assumes "\<And>a w. sent (snd (body a w)) = sent w @ [ps]"
  shows "\<exists>k. k \<le> length as \<and> (as \<noteq> [] \<longrightarrow> 1 \<le> k)
           \<and> sent (snd (retry_loop body as w)) = sent w @ replicate k ps"
proof (induction as arbitrary: w)
  case Nil
  then show ?case by simp
next
  case (Cons a as)
  obtain r w1 where b: "body a w = (r, w1)"
    by (cases "body a w")
  with assms [of a w] have s1: "sent w1 = sent w @ [ps]"
    by simp
  show ?case
  proof (cases r)
    case (Return x)
    with b s1 have "sent (snd (retry_loop body (a # as) w)) = sent w @ replicate 1 ps"
      by simp
    then show ?thesis
      by (intro exI [of _ 1]) simp
  next
    case (Raise e)
    with b s1 have "sent (snd (retry_loop body (a # as) w)) = sent w @ replicate 1 ps"
      by simp
    then show ?thesis
      by (intro exI [of _ 1]) simp
  next
    case Continue
    from Cons.IH [of w1] obtain k where k: "k \<le> length as"
      "sent (snd (retry_loop body as w1)) = sent w1 @ replicate k ps"
      by blast
    with Continue b s1 have "sent (snd (retry_loop body (a # as) w)) = sent w @ replicate (Suc k) ps"
      by (simp add: replicate_app_Cons_same)
    with k(1) show ?thesis
      by (intro exI [of _ "Suc k"]) simp
  qed
qed

lemma fetch_alpha_vantage_data_sent:
  "\<exists>k. (1 \<le> max_retries \<longrightarrow> 1 \<le> k)
     \<and> sent (snd (fetch_alpha_vantage_data T func symbol api_key extra max_retries w))
       = sent w @ replicate k
           (dict_update [(''function'', func), (''symbol'', symbol), (''apikey'', api_key),
                         (''datatype'', ''json'')] extra)"
proof -
  let ?ps = "dict_update [(''function'', func), (''symbol'', symbol), (''apikey'', api_key),
                         (''datatype'', ''json'')] extra"
  from retry_loop_sent [of "fetch_alpha_vantage_data_attempt T ?ps" ?ps "[1..max_retries]" w]
  obtain k where "[1..max_retries] \<noteq> [] \<longrightarrow> 1 \<le> k"
    "sent (snd (retry_loop (fetch_alpha_vantage_data_attempt T ?ps) [1..max_retries] w))
       = sent w @ replicate k ?ps"
    using attempt_sent(1) by blast
  then show ?thesis
    by (intro exI [of _ k]) (auto simp: fetch_alpha_vantage_data_def Let_def)
qed

lemma fetch_alpha_vantage_daily_sent:
  "\<exists>k. sent (snd (fetch_alpha_vantage_daily T symbol api_key osize func max_retries w))
       = sent w @ replicate k
           [(''function'', func), (''symbol'', symbol), (''outputsize'', osize),
            (''datatype'', ''json''), (''apikey'', api_key)]"
proof -
  let ?ps = "[(''function'', func), (''symbol'', symbol), (''outputsize'', osize),
            (''datatype'', ''json''), (''apikey'', api_key)]"
  from retry_loop_sent [of "fetch_alpha_vantage_daily_attempt T ?ps" ?ps "[1..max_retries]" w]
  obtain k where
    "sent (snd (retry_loop (fetch_alpha_vantage_daily_attempt T ?ps) [1..max_retries] w))
       = sent w @ replicate k ?ps"
    using attempt_sent(2) by blast
  then show ?thesis
    by (intro exI [of _ k]) (auto simp: fetch_alpha_vantage_daily_def Let_def)
qed

lemma endpoint_sent:
  "\<exists>k ps. 1 \<le> k \<and> endpoint_params ''GLOBAL_QUOTE'' symbol api_key ps
     \<and> sent (snd (fetch_quote_endpoint T symbol api_key w)) = sent w @ replicate k ps"
  "\<exists>k ps. 1 \<le> k \<and> endpoint_params ''OVERVIEW'' symbol api_key ps
     \<and> sent (snd (fetch_company_overview T symbol api_key w)) = sent w @ replicate k ps"
  "\<exists>k ps. 1 \<le> k \<and> endpoint_params ''NEWS_SENTIMENT'' symbol api_key ps
     \<and> sent (snd (fetch_news_sentiment T symbol api_key w)) = sent w @ replicate k ps"
  "\<exists>k ps. 1 \<le> k \<and> endpoint_params ''TIME_SERIES_DAILY'' symbol api_key ps
     \<and> sent (snd (fetch_daily_data T symbol api_key w)) = sent w @ replicate k ps"
proof -
  show "\<exists>k ps. 1 \<le> k \<and> endpoint_params ''GLOBAL_QUOTE'' symbol api_key ps
     \<and> sent (snd (fetch_quote_endpoint T symbol api_key w)) = sent w @ replicate k ps"
    using fetch_alpha_vantage_data_sent [of 3 T "''GLOBAL_QUOTE''" symbol api_key "[]" w]
    unfolding fetch_quote_endpoint_def
    by (auto simp: endpoint_params_def map_of_dict_update)
  show "\<exists>k ps. 1 \<le> k \<and> endpoint_params ''OVERVIEW'' symbol api_key ps
     \<and> sent (snd (fetch_company_overview T symbol api_key w)) = sent w @ replicate k ps"
    using fetch_alpha_vantage_data_sent [of 3 T "''OVERVIEW''" symbol api_key "[]" w]
    unfolding fetch_company_overview_def
    by (auto simp: endpoint_params_def map_of_dict_update)
  show "\<exists>k ps. 1 \<le> k \<and> endpoint_params ''NEWS_SENTIMENT'' symbol api_key ps
     \<and> sent (snd (fetch_news_sentiment T symbol api_key w)) = sent w @ replicate k ps"
    using fetch_alpha_vantage_data_sent [of 3 T "''NEWS_SENTIMENT''" symbol api_key
        "[(''time_from'', ''20240801T0000''), (''limit'', ''50'')]" w]
    unfolding fetch_news_sentiment_def
    by (auto simp: endpoint_params_def map_of_dict_update)
  show "\<exists>k ps. 1 \<le> k \<and> endpoint_params ''TIME_SERIES_DAILY'' symbol api_key ps
     \<and> sent (snd (fetch_daily_data T symbol api_key w)) = sent w @ replicate k ps"
    using fetch_alpha_vantage_data_sent [of 3 T "''TIME_SERIES_DAILY''" symbol api_key
        "[(''outputsize'', ''compact'')]" w]
    unfolding fetch_daily_data_def
    by (auto simp: endpoint_params_def map_of_dict_update)
qed

lemma ebind_Inr:
  "ebind m f = Inr y \<longleftrightarrow> (\<exists>x. m = Inr x \<and> f x = Inr y)"
  by (cases m) (simp_all add: ebind_def)

lemma parse_quote_data_symbol:
  assumes "parse_quote_data L d symbol = Inr r"
  shows "map_of (rev r) ''symbol'' = None \<or> map_of (rev r) ''symbol'' = Some (JStr symbol)"
  using assms
  by (auto simp: parse_quote_data_def Let_def ebind_Inr split: if_splits)

lemma parse_company_overview_symbol:
  assumes "parse_company_overview L d symbol = Inr r"
  shows "map_of (rev r) ''symbol'' = None \<or> map_of (rev r) ''symbol'' = Some (JStr symbol)"
  using assms
  by (auto simp: parse_company_overview_def Let_def ebind_Inr split: if_splits)

lemma parse_news_sentiment_symbol:
  assumes "parse_news_sentiment L d symbol = Inr r"
  shows "map_of (rev r) ''symbol'' = None \<or> map_of (rev r) ''symbol'' = Some (JStr symbol)"
  using assms
  by (auto simp: parse_news_sentiment_def Let_def ebind_Inr split: if_splits)

lemma parse_daily_data_for_week_symbol:
  assumes "parse_daily_data_for_week L d symbol = Inr r"
  shows "map_of (rev r) ''symbol'' = None \<or> map_of (rev r) ''symbol'' = Some (JStr symbol)"
  using assms
  by (auto simp: parse_daily_data_for_week_def Let_def ebind_Inr case_prod_beta
      split: if_splits json.splits)

lemma try_update_symbol:
  assumes "map_of result ''symbol'' = Some (JStr symbol)"
    and "\<And>p. r = Inr p \<Longrightarrow>
          map_of (rev p) ''symbol'' = None \<or> map_of (rev p) ''symbol'' = Some (JStr symbol)"
  shows "map_of (try_update result r) ''symbol'' = Some (JStr symbol)"
proof (cases r)
  case (Inl e)
  with assms(1) show ?thesis
    by (simp add: try_update_def)
next
  case (Inr p)
  with assms(2) have "map_of (rev p) ''symbol'' = None \<or> map_of (rev p) ''symbol'' = Some (JStr symbol)"
    by blast
  with Inr assms(1) show ?thesis
    by (auto simp: try_update_def map_of_dict_update)
qed

lemma try_update_failed: "try_update result (ebind (Inl e) f) = result"
  by (simp add: try_update_def ebind_def)

lemma try_update_partial_record: "try_update result r = dict_update result (partial_record r)"
  by (cases r) (simp_all add: try_update_def partial_record_def dict_update_def)

lemma fetch_stock_comprehensive_info_unfold:
  "fetch_stock_comprehensive_info L T symbol api_key w =
     (let q = fetch_quote_endpoint T symbol api_key w;
          ov = fetch_company_overview T symbol api_key (snd q);
          n = fetch_news_sentiment T symbol api_key (snd ov);
          d = fetch_daily_data T symbol api_key (snd n)
      in (try_update (try_update (try_update (try_update [(''symbol'', JStr symbol)]
            (ebind (fst q) (\<lambda>x. parse_quote_data L x symbol)))
            (ebind (fst ov) (\<lambda>x. parse_company_overview L x symbol)))
            (ebind (fst n) (\<lambda>x. parse_news_sentiment L x symbol)))
            (ebind (fst d) (\<lambda>x. parse_daily_data_for_week L x symbol)),
          snd d))"
  by (simp add: fetch_stock_comprehensive_info_def Let_def case_prod_beta)

lemma fetch_stock_comprehensive_info_symbol:
  "map_of (fst (fetch_stock_comprehensive_info L T symbol api_key w)) ''symbol'' = Some (JStr symbol)"
proof -
  have base: "map_of [(''symbol'', JStr symbol :: 'a json)] ''symbol'' = Some (JStr symbol)"
    by simp
  show ?thesis
    unfolding fetch_stock_comprehensive_info_unfold Let_def fst_conv
    by (intro try_update_symbol base)
      (auto simp: ebind_Inr dest: parse_quote_data_symbol parse_company_overview_symbol
        parse_news_sentiment_symbol parse_daily_data_for_week_symbol)
qed

lemma fetch_stock_comprehensive_info_sent:
  "\<exists>k1 p1 k2 p2 k3 p3 k4 p4.
     1 \<le> k1 \<and> 1 \<le> k2 \<and> 1 \<le> k3 \<and> 1 \<le> k4
     \<and> endpoint_params ''GLOBAL_QUOTE'' symbol api_key p1
     \<and> endpoint_params ''OVERVIEW'' symbol api_key p2
     \<and> endpoint_params ''NEWS_SENTIMENT'' symbol api_key p3
     \<and> endpoint_params ''TIME_SERIES_DAILY'' symbol api_key p4
     \<and> sent (snd (fetch_stock_comprehensive_info L T symbol api_key w))
       = sent w @ replicate k1 p1 @ replicate k2 p2 @ replicate k3 p3 @ replicate k4 p4"
proof -
  let ?q = "fetch_quote_endpoint T symbol api_key w"
  let ?o = "fetch_company_overview T symbol api_key (snd ?q)"
  let ?n = "fetch_news_sentiment T symbol api_key (snd ?o)"
  let ?d = "fetch_daily_data T symbol api_key (snd ?n)"
  from endpoint_sent(1) [of symbol api_key T w] obtain k1 p1 where
    1: "1 \<le> k1" "endpoint_params ''GLOBAL_QUOTE'' symbol api_key p1"
    "sent (snd ?q) = sent w @ replicate k1 p1"
    by blast
  from endpoint_sent(2) [of symbol api_key T "snd ?q"] obtain k2 p2 where
    2: "1 \<le> k2" "endpoint_params ''OVERVIEW'' symbol api_key p2"
    "sent (snd ?o) = sent (snd ?q) @ replicate k2 p2"
    by blast
  from endpoint_sent(3) [of symbol api_key T "snd ?o"] obtain k3 p3 where
    3: "1 \<le> k3" "endpoint_params ''NEWS_SENTIMENT'' symbol api_key p3"
    "sent (snd ?n) = sent (snd ?o) @ replicate k3 p3"
    by blast
  from endpoint_sent(4) [of symbol api_key T "snd ?n"] obtain k4 p4 where
    4: "1 \<le> k4" "endpoint_params ''TIME_SERIES_DAILY'' symbol api_key p4"
    "sent (snd ?d) = sent (snd ?n) @ replicate k4 p4"
    by blast
  have "sent (snd (fetch_stock_comprehensive_info L T symbol api_key w))
      = sent w @ replicate k1 p1 @ replicate k2 p2 @ replicate k3 p3 @ replicate k4 p4"
    unfolding fetch_stock_comprehensive_info_unfold Let_def snd_conv
    by (simp add: 1(3) 2(3) 3(3) 4(3))
  with 1(1,2) 2(1,2) 3(1,2) 4(1,2) show ?thesis
    by blast
qed

lemma endpoint_failed:
  assumes "\<forall>n ps. T n ps = RequestException \<or> non_200 (T n ps)"
  shows "fst (fetch_quote_endpoint T symbol api_key w) = Inl ExhaustedRetries"
    and "fst (fetch_company_overview T symbol api_key w) = Inl ExhaustedRetries"
    and "fst (fetch_news_sentiment T symbol api_key w) = Inl ExhaustedRetries"
    and "fst (fetch_daily_data T symbol api_key w) = Inl ExhaustedRetries"
  by (simp_all add: fetch_quote_endpoint_def fetch_company_overview_def fetch_news_sentiment_def
      fetch_daily_data_def fetch_alpha_vantage_data_def Let_def data_loop_transient [OF assms])

text \<open>
  Claim C3. Whatever the transport replies, \<^verbatim>\<open>fetch_stock_comprehensive_info\<close>
  returns a mapping (no exception leaves it) in which \<^verbatim>\<open>symbol\<close> is the identifier; it
  sends at least one request to each of the four endpoints, also after an earlier adapter
  has failed; each adapter that fails, in fetching or in parsing, contributes the empty
  record to the merge; and when all four fetches fail the result is the identifier
  alone.
\<close>

theorem aggregator_isolation:
  fixes T :: "'f transport"
  shows "map_of (fst (fetch_stock_comprehensive_info L T symbol api_key w)) ''symbol''
           = Some (JStr symbol)
       \<and> (\<forall>func \<in> set [''GLOBAL_QUOTE'', ''OVERVIEW'', ''NEWS_SENTIMENT'', ''TIME_SERIES_DAILY''].
            requested func symbol api_key w (snd (fetch_stock_comprehensive_info L T symbol api_key w)))
       \<and> (let q = fetch_quote_endpoint T symbol api_key w;
               ov = fetch_company_overview T symbol api_key (snd q);
               n = fetch_news_sentiment T symbol api_key (snd ov);
               d = fetch_daily_data T symbol api_key (snd n)
           in fetch_stock_comprehensive_info L T symbol api_key w =
                (dict_update (dict_update (dict_update (dict_update [(''symbol'', JStr symbol)]
                   (partial_record (ebind (fst q) (\<lambda>x. parse_quote_data L x symbol))))
                   (partial_record (ebind (fst ov) (\<lambda>x. parse_company_overview L x symbol))))
                   (partial_record (ebind (fst n) (\<lambda>x. parse_news_sentiment L x symbol))))
                   (partial_record (ebind (fst d) (\<lambda>x. parse_daily_data_for_week L x symbol))),
                 snd d))
       \<and> ((\<forall>n ps. T n ps = RequestException \<or> non_200 (T n ps)) \<longrightarrow>
            fst (fetch_stock_comprehensive_info L T symbol api_key w) = [(''symbol'', JStr symbol)])"
proof (intro conjI impI)
  show "map_of (fst (fetch_stock_comprehensive_info L T symbol api_key w)) ''symbol''
      = Some (JStr symbol)"
    by (rule fetch_stock_comprehensive_info_symbol)
next
  from fetch_stock_comprehensive_info_sent [of symbol api_key L T w]
  obtain k1 p1 k2 p2 k3 p3 k4 p4 where k: "1 \<le> k1" "1 \<le> k2" "1 \<le> k3" "1 \<le> k4"
    and p: "endpoint_params ''GLOBAL_QUOTE'' symbol api_key p1"
      "endpoint_params ''OVERVIEW'' symbol api_key p2"
      "endpoint_params ''NEWS_SENTIMENT'' symbol api_key p3"
      "endpoint_params ''TIME_SERIES_DAILY'' symbol api_key p4"
    and s: "sent (snd (fetch_stock_comprehensive_info L T symbol api_key w))
       = sent w @ replicate k1 p1 @ replicate k2 p2 @ replicate k3 p3 @ replicate k4 p4"
    by blast
  from k have "p1 \<in> set (replicate k1 p1)" "p2 \<in> set (replicate k2 p2)"
    "p3 \<in> set (replicate k3 p3)" "p4 \<in> set (replicate k4 p4)"
    by auto
  with p s
  show "\<forall>func \<in> set [''GLOBAL_QUOTE'', ''OVERVIEW'', ''NEWS_SENTIMENT'', ''TIME_SERIES_DAILY''].
      requested func symbol api_key w (snd (fetch_stock_comprehensive_info L T symbol api_key w))"
    unfolding requested_def by auto
next
  show "let q = fetch_quote_endpoint T symbol api_key w;
            ov = fetch_company_overview T symbol api_key (snd q);
            n = fetch_news_sentiment T symbol api_key (snd ov);
            d = fetch_daily_data T symbol api_key (snd n)
        in fetch_stock_comprehensive_info L T symbol api_key w =
             (dict_update (dict_update (dict_update (dict_update [(''symbol'', JStr symbol)]
                (partial_record (ebind (fst q) (\<lambda>x. parse_quote_data L x symbol))))
                (partial_record (ebind (fst ov) (\<lambda>x. parse_company_overview L x symbol))))
                (partial_record (ebind (fst n) (\<lambda>x. parse_news_sentiment L x symbol))))
                (partial_record (ebind (fst d) (\<lambda>x. parse_daily_data_for_week L x symbol))),
              snd d)"
    unfolding fetch_stock_comprehensive_info_unfold try_update_partial_record Let_def
    by (rule refl)
next
  assume tr: "\<forall>n ps. T n ps = RequestException \<or> non_200 (T n ps)"
  show "fst (fetch_stock_comprehensive_info L T symbol api_key w) = [(''symbol'', JStr symbol)]"
    unfolding fetch_stock_comprehensive_info_unfold Let_def fst_conv
    by (simp add: endpoint_failed [OF tr] try_update_failed)
qed

theorem aggregator_isolation_witness:
  "fst (fetch_stock_comprehensive_info (exact_lib \<lparr>year = 2024, month = 8, day = 15\<rparr>)
          (\<lambda>n ps. Response 500 Invalid) ''600519.SHH'' ''key'' world0)
     = [(''symbol'', JStr ''600519.SHH'')]
   \<and> requested ''TIME_SERIES_DAILY'' ''600519.SHH'' ''key'' world0
        (snd (fetch_stock_comprehensive_info (exact_lib \<lparr>year = 2024, month = 8, day = 15\<rparr>)
          demo_transport ''600519.SHH'' ''key'' world0))
   \<and> fst (fetch_stock_comprehensive_info (exact_lib \<lparr>year = 2024, month = 8, day = 15\<rparr>)
          demo_transport ''600519.SHH'' ''key'' world0)
     = [(''symbol'', JStr ''600519.SHH''), (''current_price'', JFloat (25 / 2)),
        (''change'', JFloat 0), (''change_percent'', JStr ''1.5''), (''volume'', JStr ''0''),
        (''previous_close'', JFloat 0), (''open'', JFloat 0), (''high'', JFloat 0),
        (''low'', JFloat 0), (''latest_trading_day'', JStr []), (''week_change'', JFloat 5),
        (''week_change_percent'', JInt 0),
        (''week_data'',
         JArr [JObj [(''date'', JStr ''2024-08-14''), (''close'', JFloat 5), (''volume'', JInt 100),
                     (''change'', JFloat 1)],
               JObj [(''date'', JStr ''2024-08-13''), (''close'', JFloat 0), (''volume'', JInt 200),
                     (''change'', JFloat (- 1))]])]"
proof -
  let ?L = "exact_lib \<lparr>year = 2024, month = 8, day = 15\<rparr>"
  have n: "\<forall>n ps. (\<lambda>n ps. Response 500 Invalid :: rat reply) n ps = RequestException
      \<or> non_200 ((\<lambda>n ps. Response 500 Invalid :: rat reply) n ps)"
    by (simp add: non_200_def)
  from aggregator_isolation [where T = "\<lambda>n ps. Response 500 Invalid :: rat reply" and L = ?L
      and symbol = "''600519.SHH''" and api_key = "''key''" and w = world0] n
  have a: "fst (fetch_stock_comprehensive_info ?L (\<lambda>n ps. Response 500 Invalid)
      ''600519.SHH'' ''key'' world0) = [(''symbol'', JStr ''600519.SHH'')]"
    by blast
  from aggregator_isolation [where T = demo_transport and L = ?L
      and symbol = "''600519.SHH''" and api_key = "''key''" and w = world0]
  have b: "requested ''TIME_SERIES_DAILY'' ''600519.SHH'' ''key'' world0
        (snd (fetch_stock_comprehensive_info ?L demo_transport ''600519.SHH'' ''key'' world0))"
    by simp
  have c: "fst (fetch_stock_comprehensive_info ?L demo_transport ''600519.SHH'' ''key'' world0)
     = [(''symbol'', JStr ''600519.SHH''), (''current_price'', JFloat (25 / 2)),
        (''change'', JFloat 0), (''change_percent'', JStr ''1.5''), (''volume'', JStr ''0''),
        (''previous_close'', JFloat 0), (''open'', JFloat 0), (''high'', JFloat 0),
        (''low'', JFloat 0), (''latest_trading_day'', JStr []), (''week_change'', JFloat 5),
        (''week_change_percent'', JInt 0),
        (''week_data'',
         JArr [JObj [(''date'', JStr ''2024-08-14''), (''close'', JFloat 5), (''volume'', JInt 100),
                     (''change'', JFloat 1)],
               JObj [(''date'', JStr ''2024-08-13''), (''close'', JFloat 0), (''volume'', JInt 200),
                     (''change'', JFloat (- 1))]])]"
    by code_simp
  from a b c show ?thesis
    by blast
qed


section \<open>Properties of the daily-series adapter\<close>







section \<open>Properties of the news adapter\<close>

lemma ebind_left_Inl:
  "ebind (Inl e) f = Inl e"
  by (simp add: ebind_def)

lemma ebind_left_Inr:
  "ebind (Inr x) f = f x"
  by (simp add: ebind_def)

lemma foldl_ebind_Inl:
  "foldl (\<lambda>acc s. ebind acc (\<lambda>t. f t s)) (Inl e) xs = Inl e"
  by (induction xs) (simp_all add: ebind_left_Inl)

lemma add_scores_Cons:
  assumes "add_scores L t (s # scores) = Inr u"
  shows "\<exists>t1. py_add L t s = Inr t1 \<and> add_scores L t1 scores = Inr u"
proof (cases "py_add L t s")
  case (Inl e)
  with assms show ?thesis
    by (simp add: add_scores_def ebind_left_Inr foldl_ebind_Inl)
next
  case (Inr t1)
  with assms show ?thesis
    by (simp add: add_scores_def ebind_left_Inr)
qed

lemma truncated_ok:
  assumes "summary_ok L v"
  shows "\<exists>s. truncated L n v = Inr s"
  using assms
  by (cases v) (auto simp: summary_ok_def truncated_def)

lemma news_item_old:
  assumes "\<not> published_recently L (JObj it)"
  shows "news_item L (JObj it) acc = Inr acc"
  using assms
  by (auto simp: news_item_def news_try_def published_recently_def Let_def truthy_def
      split: json.splits option.splits)

lemma news_item_recent:
  assumes "published_recently L (JObj it)"
    and "summary_ok L (dict_get it ''summary'' (JStr ''''))"
    and "py_add L (total_sentiment acc) (score_of (JObj it)) = Inr t1"
  shows "\<exists>acc'. news_item L (JObj it) acc = Inr acc'
     \<and> length (recent_news acc') = Suc (length (recent_news acc))
     \<and> total_sentiment acc' = t1
     \<and> positive_count acc'
         = positive_count acc + (if label_of (JObj it) = JStr ''positive'' then 1 else 0)
     \<and> negative_count acc'
         = negative_count acc + (if label_of (JObj it) = JStr ''negative'' then 1 else 0)"
proof -
  from assms(1) obtain s d where s: "dict_get it ''time_published'' (JStr '''') = JStr s" "s \<noteq> []"
    and d: "strptime L s ''%Y%m%dT%H%M%S'' = Some d" "toordinal (today L) - 7 \<le> toordinal d"
    by (auto simp: published_recently_def split: json.splits option.splits)
  from truncated_ok [OF assms(2)] obtain sm where
    sm: "truncated L 100 (dict_get it ''summary'' (JStr '''')) = Inr sm"
    by blast
  from assms(3) have sc: "py_add L (total_sentiment acc)
      (dict_get it ''overall_sentiment_score'' (JInt 0)) = Inr t1"
    by (simp add: score_of_def)
  show ?thesis
    by (simp add: news_item_def news_try_def Let_def truthy_def s d sm sc label_of_def)
qed

lemma news_loop_counts:
  assumes "\<forall>item \<in> set items. well_formed_item L item"
    and "add_scores L (total_sentiment acc)
           (map score_of (filter (published_recently L) items)) = Inr t"
  shows "\<exists>acc'. news_loop L items acc = Inr acc'
     \<and> length (recent_news acc')
         = length (recent_news acc) + length (filter (published_recently L) items)
     \<and> total_sentiment acc' = t
     \<and> positive_count acc'
         = positive_count acc
           + int (length (filter (\<lambda>i. label_of i = JStr ''positive'')
                   (filter (published_recently L) items)))
     \<and> negative_count acc'
         = negative_count acc
           + int (length (filter (\<lambda>i. label_of i = JStr ''negative'')
                   (filter (published_recently L) items)))"
  using assms
proof (induction items arbitrary: acc)
  case Nil
  then show ?case by (simp add: add_scores_def)
next
  case (Cons item items)
  from Cons.prems(1) have wf: "well_formed_item L item"
    and rest: "\<forall>i \<in> set items. well_formed_item L i"
    by simp_all
  from wf obtain it where it: "item = JObj it"
    by (cases item) (simp_all add: well_formed_item_def)
  show ?case
  proof (cases "published_recently L item")
    case False
    with it have "news_item L item acc = Inr acc"
      by (simp add: news_item_old)
    moreover from Cons.prems(2) False have "add_scores L (total_sentiment acc)
        (map score_of (filter (published_recently L) items)) = Inr t"
      by simp
    ultimately show ?thesis
      using Cons.IH [OF rest, of acc] False by (simp add: ebind_def)
  next
    case True
    with wf it have ok: "summary_ok L (dict_get it ''summary'' (JStr ''''))"
      by (simp add: well_formed_item_def)
    from Cons.prems(2) True have "add_scores L (total_sentiment acc)
        (score_of item # map score_of (filter (published_recently L) items)) = Inr t"
      by simp
    from add_scores_Cons [OF this] obtain t1 where
      t1: "py_add L (total_sentiment acc) (score_of item) = Inr t1"
      and tl: "add_scores L t1 (map score_of (filter (published_recently L) items)) = Inr t"
      by blast
    from True it have "published_recently L (JObj it)"
      by simp
    from news_item_recent [OF this ok, of acc t1] t1 it obtain acc1 where
      a1: "news_item L item acc = Inr acc1"
      "length (recent_news acc1) = Suc (length (recent_news acc))"
      "total_sentiment acc1 = t1"
      "positive_count acc1
         = positive_count acc + (if label_of item = JStr ''positive'' then 1 else 0)"
      "negative_count acc1
         = negative_count acc + (if label_of item = JStr ''negative'' then 1 else 0)"
      by auto
    from tl a1(3) have "add_scores L (total_sentiment acc1)
        (map score_of (filter (published_recently L) items)) = Inr t"
      by simp
    from Cons.IH [OF rest this] a1 True show ?thesis
      by (auto simp: ebind_def)
  qed
qed

text \<open>
  Claim C9, as amended. For a feed of 12 items of which exactly three are published
  recently, all three among the first ten, two of them labelled positive and one
  negative, whose first ten items are well formed and whose three recent scores have a
  mean (they are numbers, and no integer among them or their sum is too large for a
  float): the parser returns, with \<^verbatim>\<open>recent_news_count\<close> 3,
  \<^verbatim>\<open>positive_news_count\<close> 2, \<^verbatim>\<open>negative_news_count\<close> 1 and
  \<^verbatim>\<open>avg_sentiment_score\<close> that mean rounded to 3 decimals. The other items may be
  older or carry a malformed timestamp.
\<close>

theorem news_counts:
  assumes "map_of news_data ''feed'' = Some (JArr items)" and "length items = 12"
    and "\<forall>item \<in> set (take 10 items). well_formed_item L item"
    and "filter (published_recently L) items = [a, b, c]"
    and "filter (published_recently L) (drop 10 items) = []"
    and "length (filter (\<lambda>i. label_of i = JStr ''positive'') [a, b, c]) = 2"
    and "length (filter (\<lambda>i. label_of i = JStr ''negative'') [a, b, c]) = 1"
    and "mean_score L [score_of a, score_of b, score_of c] = Inr mean"
  shows "\<exists>r. parse_news_sentiment L news_data symbol = Inr r
     \<and> map_of r ''recent_news_count'' = Some (JInt 3)
     \<and> map_of r ''positive_news_count'' = Some (JInt 2)
     \<and> map_of r ''negative_news_count'' = Some (JInt 1)
     \<and> map_of r ''avg_sentiment_score'' = Some (JFloat (fround L 3 mean))"
proof -
  let ?acc0 = "\<lparr>recent_news = [], total_sentiment = IntNum 0, positive_count = 0,
      negative_count = 0\<rparr> :: 'a news_acc"
  have "filter (published_recently L) items
      = filter (published_recently L) (take 10 items) @ filter (published_recently L) (drop 10 items)"
    by (metis append_take_drop_id filter_append)
  with assms(4,5) have f10: "filter (published_recently L) (take 10 items) = [a, b, c]"
    by simp
  from assms(8) obtain t where t: "sum_scores L [score_of a, score_of b, score_of c] = Inr t"
    and m: "py_truediv L t 3 = Inr mean"
    by (auto simp: mean_score_def ebind_Inr)
  from t f10 have "add_scores L (total_sentiment ?acc0)
      (map score_of (filter (published_recently L) (take 10 items))) = Inr t"
    by (simp add: sum_scores_def)
  from news_loop_counts [OF assms(3) this] f10 assms(6,7) obtain acc where
    loop: "news_loop L (take 10 items) ?acc0 = Inr acc"
    and n: "length (recent_news acc) = 3"
    and ts: "total_sentiment acc = t"
    and p: "positive_count acc = 2" and q: "negative_count acc = 1"
    by auto
  from assms(2) have ne: "items \<noteq> []"
    by auto
  from n have rn: "recent_news acc \<noteq> []"
    by auto
  from assms(1) have hk: "news_data \<noteq> []" "has_key ''feed'' news_data"
    "dict_get news_data ''feed'' (JArr []) = JArr items"
    by (auto simp: has_key_def dict_get_def)
  have "parse_news_sentiment L news_data symbol =
      Inr [(''symbol'', JStr symbol),
           (''recent_news_count'', JInt (int (length (recent_news acc)))),
           (''avg_sentiment_score'', JFloat (fround L 3 mean)),
           (''positive_news_count'', JInt (positive_count acc)),
           (''negative_news_count'', JInt (negative_count acc)),
           (''recent_news'', JArr (recent_news acc))]"
    using hk ne rn loop n ts m
    by (simp add: parse_news_sentiment_def Let_def truthy_def feed_slice_def ebind_def)
  with n p q show ?thesis
    by simp
qed

theorem news_counts_witness:
  "length demo_feed = 12
   \<and> filter (published_recently (exact_lib demo_today)) demo_feed = [pos_item, pos_item, neg_item]
   \<and> mean_score (exact_lib demo_today) [score_of pos_item, score_of pos_item, score_of neg_item]
       = Inr (1 / 4)
   \<and> (\<exists>r. parse_news_sentiment (exact_lib demo_today) [(''feed'', JArr demo_feed)] ''600519.SHH''
            = Inr r
          \<and> map_of r ''recent_news_count'' = Some (JInt 3)
          \<and> map_of r ''positive_news_count'' = Some (JInt 2)
          \<and> map_of r ''negative_news_count'' = Some (JInt 1)
          \<and> map_of r ''avg_sentiment_score'' = Some (JFloat (1 / 4)))"
proof -
  let ?L = "exact_lib demo_today"
  have h1: "map_of [(''feed'', JArr demo_feed)] ''feed'' = Some (JArr demo_feed)"
    by simp
  have h2: "length demo_feed = 12"
    by (simp add: demo_feed_def)
  have h3: "\<forall>item \<in> set (take 10 demo_feed). well_formed_item ?L item"
    by code_simp
  have h4: "filter (published_recently ?L) demo_feed = [pos_item, pos_item, neg_item]"
    by code_simp
  have h5: "filter (published_recently ?L) (drop 10 demo_feed) = []"
    by code_simp
  have h6: "length (filter (\<lambda>i. label_of i = JStr ''positive'') [pos_item, pos_item, neg_item]) = 2"
    by code_simp
  have h7: "length (filter (\<lambda>i. label_of i = JStr ''negative'') [pos_item, pos_item, neg_item]) = 1"
    by code_simp
  have h8: "mean_score ?L [score_of pos_item, score_of pos_item, score_of neg_item] = Inr (1 / 4)"
    by code_simp
  have r3: "fround ?L 3 (1 / 4) = 1 / 4"
    by code_simp
  from news_counts [OF h1 h2 h3 h4 h5 h6 h7 h8, of "''600519.SHH''", unfolded r3]
  have "\<exists>r. parse_news_sentiment ?L [(''feed'', JArr demo_feed)] ''600519.SHH'' = Inr r
          \<and> map_of r ''recent_news_count'' = Some (JInt 3)
          \<and> map_of r ''positive_news_count'' = Some (JInt 2)
          \<and> map_of r ''negative_news_count'' = Some (JInt 1)
          \<and> map_of r ''avg_sentiment_score'' = Some (JFloat (1 / 4))" .
  with h2 h4 h8 show ?thesis
    by blast
qed

lemma news_loop_append:
  "news_loop L (xs @ ys) acc = ebind (news_loop L xs acc) (news_loop L ys)"
  by (induction xs arbitrary: acc) (auto simp: ebind_def split: sum.splits)

lemma news_loop_old:
  assumes "\<And>acc. news_item L x acc = Inr acc"
  shows "news_loop L (replicate n x) acc = Inr acc"
  by (induction n) (simp_all add: ebind_def assms)

text \<open>
  The claim as stated fails when recent items come after the tenth: of 12 items with
  the three recent ones last, the parser reads the first ten and counts one.
\<close>

theorem news_counts_counterexample:
  "length late_feed = 12
   \<and> filter (published_recently (exact_lib demo_today)) late_feed = [pos_item, pos_item, neg_item]
   \<and> parse_news_sentiment (exact_lib demo_today) [(''feed'', JArr late_feed)] ''600519.SHH''
     = Inr [(''symbol'', JStr ''600519.SHH''), (''recent_news_count'', JInt 1),
            (''avg_sentiment_score'', JFloat (1 / 2)), (''positive_news_count'', JInt 1),
            (''negative_news_count'', JInt 0),
            (''recent_news'',
             JArr [JObj [(''title'', JStr ''up''), (''summary'', JStr ''s...''),
                         (''sentiment'', JStr ''positive''), (''date'', JStr ''2024-08-14'')]])]"
proof -
  let ?L = "exact_lib demo_today"
  let ?acc0 = "\<lparr>recent_news = [], total_sentiment = IntNum 0, positive_count = 0,
      negative_count = 0\<rparr> :: rat news_acc"
  let ?acc1 = "\<lparr>recent_news = [JObj [(''title'', JStr ''up''), (''summary'', JStr ''s...''),
                         (''sentiment'', JStr ''positive''), (''date'', JStr ''2024-08-14'')]],
      total_sentiment = FloatNum (1 / 2), positive_count = 1,
      negative_count = 0\<rparr> :: rat news_acc"
  have len: "length late_feed = 12"
    by (simp add: late_feed_def)
  have rec: "filter (published_recently ?L) late_feed = [pos_item, pos_item, neg_item]"
    by code_simp
  have "\<not> published_recently ?L old_item"
    by code_simp
  then have old: "\<And>acc. news_item ?L old_item acc = Inr acc"
    unfolding old_item_def by (rule news_item_old)
  have pos: "news_item ?L pos_item ?acc0 = Inr ?acc1"
    by code_simp
  have t10: "take 10 late_feed = replicate 9 old_item @ [pos_item]"
    by (simp add: late_feed_def)
  have loop: "news_loop ?L (take 10 late_feed) ?acc0 = Inr ?acc1"
    unfolding t10 news_loop_append news_loop_old [of ?L old_item, OF old]
    by (simp add: ebind_def pos)
  have avg: "ebind (py_truediv ?L (FloatNum (1 / 2)) 1) (\<lambda>mean. Inr (JFloat (fround ?L 3 mean)))
      = Inr (JFloat (1 / 2))"
    by code_simp
  have ne: "late_feed \<noteq> []"
    using len by auto
  have "parse_news_sentiment ?L [(''feed'', JArr late_feed)] ''600519.SHH''
     = Inr [(''symbol'', JStr ''600519.SHH''), (''recent_news_count'', JInt 1),
            (''avg_sentiment_score'', JFloat (1 / 2)), (''positive_news_count'', JInt 1),
            (''negative_news_count'', JInt 0),
            (''recent_news'',
             JArr [JObj [(''title'', JStr ''up''), (''summary'', JStr ''s...''),
                         (''sentiment'', JStr ''positive''), (''date'', JStr ''2024-08-14'')]])]"
    using ne
    by (simp add: parse_news_sentiment_def Let_def has_key_def dict_get_def truthy_def
        feed_slice_def ebind_left_Inr loop avg)
  with len rec show ?thesis
    by blast
qed

text \<open>
  An integer score too large for a float is well formed and recent, and has no mean: the
  division after the loop raises \<^verbatim>\<open>OverflowError\<close>, outside the \<^verbatim>\<open>try\<close>.
\<close>

lemma news_score_overflow:
  "well_formed_item (exact_lib demo_today) huge_item
   \<and> mean_score (exact_lib demo_today) [score_of huge_item] = Inl OverflowError
   \<and> parse_news_sentiment (exact_lib demo_today) [(''feed'', JArr [huge_item])] ''600519.SHH''
       = Inl OverflowError"
  by code_simp


section \<open>Properties of the batch drivers\<close>

lemma info_loop_sent:
  "\<exists>xs. sent (snd (info_loop L T api_key syms w)) = sent w @ xs
        \<and> (\<forall>ps \<in> set xs. uses_key api_key ps)"
proof (induction syms arbitrary: w)
  case Nil
  then show ?case by simp
next
  case (Cons raw syms)
  let ?s = "normalize_a_share_symbol raw"
  let ?w1 = "snd (fetch_stock_comprehensive_info L T ?s api_key w)"
  from fetch_stock_comprehensive_info_sent [of ?s api_key L T w]
  obtain xs where xs: "sent ?w1 = sent w @ xs" "\<forall>ps \<in> set xs. uses_key api_key ps"
    by (fastforce simp: endpoint_params_def uses_key_def)
  from Cons.IH [of ?w1] obtain ys where
    ys: "sent (snd (info_loop L T api_key syms ?w1)) = sent ?w1 @ ys"
    "\<forall>ps \<in> set ys. uses_key api_key ps"
    by blast
  have "sent (snd (info_loop L T api_key (raw # syms) w)) = sent w @ (xs @ ys)"
    using xs(1) ys(1) by (simp add: Let_def case_prod_beta)
  with xs(2) ys(2) show ?case
    by (intro exI [of _ "xs @ ys"]) auto
qed


lemma shares_loop_sent:
  "\<exists>xs. sent (snd (shares_loop L T api_key osize fn sd ed syms frames w)) = sent w @ xs
        \<and> (\<forall>ps \<in> set xs. uses_key api_key ps)"
proof (induction syms arbitrary: w frames)
  case Nil
  then show ?case by simp
next
  case (Cons raw syms)
  let ?s = "normalize_a_share_symbol raw"
  let ?f = "fetch_alpha_vantage_daily T ?s api_key osize fn 5 w"
  from fetch_alpha_vantage_daily_sent [of T ?s api_key osize fn 5 w]
  obtain xs where xs: "sent (snd ?f) = sent w @ xs" "\<forall>ps \<in> set xs. uses_key api_key ps"
    by (fastforce simp: uses_key_def)
  obtain r w1 where f: "?f = (r, w1)"
    by (cases ?f)
  with xs have w1: "sent w1 = sent w @ xs"
    by simp
  have tail: "\<And>fr. \<exists>ys. sent (snd (shares_loop L T api_key osize fn sd ed syms fr w1)) = sent w @ ys
        \<and> (\<forall>ps \<in> set ys. uses_key api_key ps)"
  proof -
    fix fr
    from Cons.IH [of fr w1] obtain ys where
      "sent (snd (shares_loop L T api_key osize fn sd ed syms fr w1)) = sent w1 @ ys"
      "\<forall>ps \<in> set ys. uses_key api_key ps"
      by blast
    with w1 xs(2) show "\<exists>ys. sent (snd (shares_loop L T api_key osize fn sd ed syms fr w1)) = sent w @ ys
        \<and> (\<forall>ps \<in> set ys. uses_key api_key ps)"
      by (intro exI [of _ "xs @ ys"]) auto
  qed
  have here: "\<exists>ys. sent w1 = sent w @ ys \<and> (\<forall>ps \<in> set ys. uses_key api_key ps)"
    using w1 xs(2) by blast
  show ?case
    using f tail here
    by (auto simp: Let_def split: sum.splits)
qed

lemma ebind_Inl:
  "ebind m f = Inl e \<longleftrightarrow> m = Inl e \<or> (\<exists>x. m = Inr x \<and> f x = Inl e)"
  by (cases m) (simp_all add: ebind_def)

lemma retry_loop_Inl:
  assumes "retry_loop body as w = (Inl e, w')"
  shows "e = ExhaustedRetries \<or> (\<exists>a w1 w2. body a w1 = (Raise e, w2))"
  using assms
proof (induction as arbitrary: w)
  case Nil
  then show ?case by simp
next
  case (Cons a as)
  obtain r w1 where b: "body a w = (r, w1)"
    by (cases "body a w")
  show ?case
  proof (cases r)
    case (Return x)
    with Cons.prems b show ?thesis
      by simp
  next
    case (Raise x)
    with Cons.prems b have "x = e"
      by simp
    with Raise b show ?thesis
      by blast
  next
    case Continue
    with Cons.prems b have "retry_loop body as w1 = (Inl e, w')"
      by simp
    then show ?thesis
      by (rule Cons.IH)
  qed
qed

lemma daily_attempt_Raise:
  assumes "fetch_alpha_vantage_daily_attempt T ps a w = (Raise e, w')"
  shows "\<exists>msg. e = UpstreamError msg"
  using assms
  by (auto simp: fetch_alpha_vantage_daily_attempt_def session_get_def
      split: reply.splits body.splits if_splits option.splits)

lemma fetch_alpha_vantage_daily_not_exit:
  assumes "fetch_alpha_vantage_daily T symbol api_key osize fn max_retries w = (Inl e, w')"
  shows "not_exit e"
proof -
  from assms retry_loop_Inl
  have "e = ExhaustedRetries \<or> (\<exists>ps a w1 w2. fetch_alpha_vantage_daily_attempt T ps a w1 = (Raise e, w2))"
    unfolding fetch_alpha_vantage_daily_def Let_def by blast
  then show ?thesis
    by (auto simp: not_exit_def dest: daily_attempt_Raise)
qed

lemma py_get_not_exit: "py_get x k d = Inl e \<Longrightarrow> not_exit e"
  by (cases x) (simp_all add: py_get_def not_exit_def)

lemma py_float_not_exit: "py_float L v = Inl e \<Longrightarrow> not_exit e"
  by (cases v) (auto simp: py_float_def not_exit_def split: option.splits if_splits)

lemma get_float_or_not_exit: "get_float_or L x k d = Inl e \<Longrightarrow> not_exit e"
  by (auto simp: get_float_or_def ebind_Inl dest: py_get_not_exit py_float_not_exit)

lemma ebind_not_exit:
  assumes "ebind m f = Inl e"
    and "m = Inl e \<Longrightarrow> not_exit e"
    and "\<And>x. f x = Inl e \<Longrightarrow> not_exit e"
  shows "not_exit e"
  using assms by (auto simp: ebind_Inl)

lemma bar_of_not_exit:
  assumes "bar_of L symbol item = Inl e"
  shows "not_exit e"
proof (cases item)
  case (Pair d_str vals)
  show ?thesis
  proof (cases "strptime L d_str ''%Y-%m-%d''")
    case None
    with assms Pair show ?thesis
      by (simp add: bar_of_def not_exit_def)
  next
    case (Some d)
    with assms Pair have
      "ebind (get_float_or L vals ''1. open'' (JStr ''nan'')) (\<lambda>opn.
       ebind (get_float_or L vals ''2. high'' (JStr ''nan'')) (\<lambda>high.
       ebind (get_float_or L vals ''3. low'' (JStr ''nan'')) (\<lambda>low.
       ebind (get_float_or L vals ''4. close'' (JStr ''nan'')) (\<lambda>cls.
       ebind (ebind (py_get vals ''4. close'' (JStr ''nan''))
                (get_float_or L vals ''5. adjusted close'')) (\<lambda>adjusted_close.
       ebind (ebind (ebind (py_get vals ''5. volume'' (JInt 0))
                (get_float_or L vals ''6. volume''))
                (\<lambda>x. case int_of_float L x of Some i \<Rightarrow> Inr i | None \<Rightarrow> Inl ValueError))
         (\<lambda>vol.
       ebind (get_float_or L vals ''7. dividend amount'' (JFloat (float_of_int L 0)))
         (\<lambda>dividend_amount.
       ebind (get_float_or L vals ''8. split coefficient'' (JFloat (float_of_int L 1)))
         (\<lambda>split_coefficient.
       Inr \<lparr>bar_symbol = symbol, bar_date = d, bar_open = opn, bar_high = high,
            bar_low = low, bar_close = cls, bar_adjusted_close = adjusted_close,
            bar_volume = vol, bar_dividend_amount = dividend_amount,
            bar_split_coefficient = split_coefficient\<rparr>)))))))) = Inl e"
      by (simp add: bar_of_def)
    then show ?thesis
      by (elim ebind_not_exit get_float_or_not_exit py_get_not_exit)
        (auto simp: not_exit_def split: option.splits)
  qed
qed

lemma bars_of_not_exit:
  assumes "bars_of L symbol items = Inl e"
  shows "not_exit e"
  using assms
proof (induction items)
  case Nil
  then show ?case by simp
next
  case (Cons item items)
  then show ?case
    by (auto simp: ebind_Inl dest: bar_of_not_exit)
qed

lemma parse_daily_to_dataframe_not_exit:
  assumes "parse_daily_to_dataframe L symbol payload = Inl e"
  shows "not_exit e"
  using assms
  by (auto simp: parse_daily_to_dataframe_def not_exit_def dest: bars_of_not_exit
      split: json.splits)

lemma shares_loop_not_exit:
  assumes "fst (shares_loop L T api_key osize fn sd ed syms frames w) = Inl e"
  shows "not_exit e"
  using assms
proof (induction syms arbitrary: w frames)
  case Nil
  then show ?case by simp
next
  case (Cons raw syms)
  let ?s = "normalize_a_share_symbol raw"
  obtain r w1 where f: "fetch_alpha_vantage_daily T ?s api_key osize fn 5 w = (r, w1)"
    by (cases "fetch_alpha_vantage_daily T ?s api_key osize fn 5 w")
  show ?case
  proof (cases r)
    case (Inl x)
    with Cons.prems f have "x = e"
      by (simp add: Let_def)
    with Inl f show ?thesis
      using fetch_alpha_vantage_daily_not_exit by blast
  next
    case (Inr payload)
    show ?thesis
    proof (cases "parse_daily_to_dataframe L ?s payload")
      case (Inl x)
      with Cons.prems f Inr have "x = e"
        by (simp add: Let_def)
      with Inl show ?thesis
        using parse_daily_to_dataframe_not_exit by blast
    next
      case df: (Inr df)
      with Cons.prems f Inr show ?thesis
        by (auto simp: Let_def dest: Cons.IH split: if_splits)
    qed
  qed
qed

lemma parse_date_not_exit: "parse_date L d = Inl e \<Longrightarrow> not_exit e"
  by (auto simp: parse_date_def not_exit_def split: option.splits if_splits)

lemma main_info_unfold:
  "main_info L T a env w =
     (Inr (fst (info_loop L T ''DBW1NM92621232126K'' (symbols a) w)),
      snd (info_loop L T ''DBW1NM92621232126K'' (symbols a) w))"
  by (simp add: main_info_def Let_def case_prod_beta)

lemma main_shares_sent:
  "\<exists>xs. sent (snd (main_shares L T a env w)) = sent w @ xs
        \<and> (\<forall>ps \<in> set xs. uses_key ''DBW1NM92621232126K'' ps)"
proof -
  have keep: "\<exists>xs. sent w = sent w @ xs \<and> (\<forall>ps \<in> set xs. uses_key ''DBW1NM92621232126K'' ps)"
    by simp
  have loop: "\<And>fn sd ed. \<exists>xs.
      sent (snd (shares_loop L T ''DBW1NM92621232126K'' (outputsize a) fn sd ed (symbols a) [] w))
        = sent w @ xs \<and> (\<forall>ps \<in> set xs. uses_key ''DBW1NM92621232126K'' ps)"
    by (rule shares_loop_sent)
  show ?thesis
    unfolding main_shares_def Let_def
    using keep loop
    by (auto simp: case_prod_beta split: sum.splits option.splits if_splits)
qed

lemma main_shares_not_exit:
  assumes "fst (main_shares L T a env w) = Inl e"
  shows "e \<noteq> SystemExit MissingApiKey"
proof -
  have loop: "\<And>fn sd ed.
      fst (shares_loop L T ''DBW1NM92621232126K'' (outputsize a) fn sd ed (symbols a) [] w) = Inl e
      \<Longrightarrow> not_exit e"
    by (rule shares_loop_not_exit)
  from assms have "not_exit e \<or> e = SystemExit StartAfterEnd \<or> e = SystemExit NoData"
    unfolding main_shares_def Let_def
    by (auto simp: case_prod_beta dest: parse_date_not_exit loop [OF sym] loop
        split: sum.splits option.splits if_splits)
  then show ?thesis
    by (auto simp: not_exit_def)
qed







text \<open>
  Claim C10. Whatever the command line and the environment, every request that either
  \<^verbatim>\<open>main\<close> sends carries the constant as its \<^verbatim>\<open>apikey\<close>; neither \<^verbatim>\<open>main\<close> ends in
  the exit for a missing credential; and changing the \<^verbatim>\<open>--api-key\<close> argument and the
  environment variable changes nothing.
\<close>

theorem hardcoded_api_key:
  fixes T :: "'f transport"
  shows "(\<forall>ps \<in> set (drop (length (sent w)) (sent (snd (main_info L T a env w)))).
            map_of ps ''apikey'' = Some ''DBW1NM92621232126K'')
       \<and> (\<forall>ps \<in> set (drop (length (sent w)) (sent (snd (main_shares L T a env w)))).
            map_of ps ''apikey'' = Some ''DBW1NM92621232126K'')
       \<and> fst (main_info L T a env w) \<noteq> Inl (SystemExit MissingApiKey)
       \<and> fst (main_shares L T a env w) \<noteq> Inl (SystemExit MissingApiKey)
       \<and> main_info L T (a\<lparr>api_key_arg := k\<rparr>) env' w = main_info L T a env w
       \<and> main_shares L T (a\<lparr>api_key_arg := k\<rparr>) env' w = main_shares L T a env w"
proof (intro conjI)
  from info_loop_sent [where api_key = "''DBW1NM92621232126K''" and L = L and T = T
      and syms = "symbols a" and w = w]
  show "\<forall>ps \<in> set (drop (length (sent w)) (sent (snd (main_info L T a env w)))).
      map_of ps ''apikey'' = Some ''DBW1NM92621232126K''"
    by (auto simp: main_info_unfold uses_key_def)
  from main_shares_sent [where L = L and T = T and a = a and env = env and w = w]
  show "\<forall>ps \<in> set (drop (length (sent w)) (sent (snd (main_shares L T a env w)))).
      map_of ps ''apikey'' = Some ''DBW1NM92621232126K''"
    by (auto simp: uses_key_def)
  show "fst (main_info L T a env w) \<noteq> Inl (SystemExit MissingApiKey)"
    by (simp add: main_info_unfold)
  show "fst (main_shares L T a env w) \<noteq> Inl (SystemExit MissingApiKey)"
    using main_shares_not_exit by blast
  show "main_info L T (a\<lparr>api_key_arg := k\<rparr>) env' w = main_info L T a env w"
    by (simp add: main_info_def)
  show "main_shares L T (a\<lparr>api_key_arg := k\<rparr>) env' w = main_shares L T a env w"
    by (simp add: main_shares_def cong: sum.case_cong if_cong)
qed

theorem hardcoded_api_key_witness:
  "main_shares (exact_lib demo_today) failing_first (demo_args\<lparr>symbols := [''000001'']\<rparr>)
       (Some ''env-key'') world0
     = (Inr [[\<lparr>bar_symbol = ''000001.SHZ'',
               bar_date = \<lparr>year = 2024, month = 8, day = 14\<rparr>, bar_open = 21 / 2,
               bar_high = 43 / 4, bar_low = 10, bar_close = 41 / 4, bar_adjusted_close = 41 / 4,
               bar_volume = 100, bar_dividend_amount = 0, bar_split_coefficient = 1\<rparr>]],
        \<lparr>sent = [demo_request ''000001.SHZ''], slept = [], acquired = 1\<rparr>)
   \<and> api_key_arg demo_args = Some ''user-key''
   \<and> list_all (\<lambda>ps. map_of ps ''apikey'' = Some ''DBW1NM92621232126K'')
         (sent (snd (main_shares (exact_lib demo_today) failing_first
            (demo_args\<lparr>symbols := [''000001'']\<rparr>) (Some ''env-key'') world0)))
   \<and> list_all (\<lambda>ps. map_of ps ''apikey'' = Some ''DBW1NM92621232126K'')
         (sent (snd (main_info (exact_lib demo_today) failing_first demo_args
            (Some ''env-key'') world0)))
   \<and> fst (main_info (exact_lib demo_today) failing_first demo_args (Some ''env-key'') world0)
       \<noteq> Inl (SystemExit MissingApiKey)"
proof -
  let ?L = "exact_lib demo_today"
  let ?a = "demo_args\<lparr>symbols := [''000001'']\<rparr>"
  have run: "main_shares ?L failing_first ?a (Some ''env-key'') world0
     = (Inr [[\<lparr>bar_symbol = ''000001.SHZ'',
               bar_date = \<lparr>year = 2024, month = 8, day = 14\<rparr>, bar_open = 21 / 2,
               bar_high = 43 / 4, bar_low = 10, bar_close = 41 / 4, bar_adjusted_close = 41 / 4,
               bar_volume = 100, bar_dividend_amount = 0, bar_split_coefficient = 1\<rparr>]],
        \<lparr>sent = [demo_request ''000001.SHZ''], slept = [], acquired = 1\<rparr>)"
    by code_simp
  have k: "api_key_arg demo_args = Some ''user-key''"
    by (simp add: demo_args_def)
  from hardcoded_api_key [where L = ?L and T = failing_first and a = ?a
      and env = "Some ''env-key''" and w = world0]
  have s: "list_all (\<lambda>ps. map_of ps ''apikey'' = Some ''DBW1NM92621232126K'')
      (sent (snd (main_shares ?L failing_first ?a (Some ''env-key'') world0)))"
    by (simp add: world0_def list_all_iff)
  from hardcoded_api_key [where L = ?L and T = failing_first and a = demo_args
      and env = "Some ''env-key''" and w = world0]
  have i: "list_all (\<lambda>ps. map_of ps ''apikey'' = Some ''DBW1NM92621232126K'')
      (sent (snd (main_info ?L failing_first demo_args (Some ''env-key'') world0)))"
    "fst (main_info ?L failing_first demo_args (Some ''env-key'') world0)
       \<noteq> Inl (SystemExit MissingApiKey)"
    by (simp_all add: world0_def list_all_iff)
  from run k s i show ?thesis
    by blast
qed


end
